theory Spec2Isabelle
  imports Complex_Main "HOL-Library.Sublist"
begin

section \<open>JavaScript Number values\<close>

text \<open>
  The geometric checker of \<^verbatim>\<open>src/index.js\<close> computes on JavaScript Numbers, the
  values of IEEE 754 binary64. A Number is one of the special values \<open>NaN\<close>,
  \<open>-Infinity\<close>, \<open>+Infinity\<close>, or a finite value, given here by the real number it
  denotes. The two zeros are one value: the checker never divides by a computed
  value, \<^verbatim>\<open>Math.max(0, -0)\<close> is \<open>+0\<close>, and squares, sums of squares and their roots
  are never \<open>-0\<close>, so no result of the checker depends on the sign of a zero.
\<close>

datatype jsnum = NaN | NInf | Fin real | PInf

subsection \<open>Rounding to binary64\<close>

text \<open>
  Every arithmetic operation returns its exact real result rounded to the nearest
  binary64 value, ties to the value with an even significand. A binary64 value is
  an integer multiple of \<open>2 ^ e\<close>, where \<open>e\<close> is \<open>\<lfloor>log 2 |r|\<rfloor> - 52\<close> and at least
  \<open>-1074\<close> (the spacing of the subnormal values). A rounded magnitude of \<open>2 ^ 1024\<close>
  or more is an overflow and gives the infinity of that sign.
\<close>

definition round_even :: "real \<Rightarrow> int" where
  "round_even q =
     (let f = \<lfloor>q\<rfloor>; d = q - of_int f in
      if d < 1 / 2 then f
      else if 1 / 2 < d then f + 1
      else if even f then f else f + 1)"

definition ulp_exponent :: "real \<Rightarrow> int" where
  "ulp_exponent r = max (\<lfloor>log 2 \<bar>r\<bar>\<rfloor> - 52) (- 1074)"

definition round_value :: "real \<Rightarrow> real" where
  "round_value r =
     (if r = 0 then 0
      else of_int (round_even (r / 2 powr of_int (ulp_exponent r)))
             * 2 powr of_int (ulp_exponent r))"

definition round64 :: "real \<Rightarrow> jsnum" where
  "round64 r =
     (let v = round_value r in
      if 2 ^ 1024 \<le> v then PInf else if v \<le> - (2 ^ 1024) then NInf else Fin v)"

text \<open>
  A real number is a binary64 value when rounding leaves it as it is. A finite value
  \<open>Fin r\<close> is a Number of the language when \<open>r\<close> is one; every operator below returns
  such values, and a statement that needs it of a property of an entity says so.
\<close>

definition is_binary64 :: "real \<Rightarrow> bool" where
  "is_binary64 r = (round64 r = Fin r)"

subsection \<open>The operators of the checker\<close>

text \<open>\<^verbatim>\<open>a + b\<close> on Numbers.\<close>

fun js_add :: "jsnum \<Rightarrow> jsnum \<Rightarrow> jsnum" where
  "js_add NaN _ = NaN"
| "js_add _ NaN = NaN"
| "js_add PInf NInf = NaN"
| "js_add NInf PInf = NaN"
| "js_add PInf _ = PInf"
| "js_add _ PInf = PInf"
| "js_add NInf _ = NInf"
| "js_add _ NInf = NInf"
| "js_add (Fin a) (Fin b) = round64 (a + b)"

text \<open>\<^verbatim>\<open>a - b\<close> on Numbers.\<close>

fun js_sub :: "jsnum \<Rightarrow> jsnum \<Rightarrow> jsnum" where
  "js_sub NaN _ = NaN"
| "js_sub _ NaN = NaN"
| "js_sub PInf PInf = NaN"
| "js_sub NInf NInf = NaN"
| "js_sub PInf _ = PInf"
| "js_sub _ NInf = PInf"
| "js_sub NInf _ = NInf"
| "js_sub _ PInf = NInf"
| "js_sub (Fin a) (Fin b) = round64 (a - b)"

text \<open>
  \<^verbatim>\<open>a / b\<close> on Numbers; a zero divisor is the positive zero (the only divisor in
  the source is the literal 2).
\<close>

fun js_div :: "jsnum \<Rightarrow> jsnum \<Rightarrow> jsnum" where
  "js_div NaN _ = NaN"
| "js_div _ NaN = NaN"
| "js_div (Fin a) (Fin b) =
     (if b = 0 then (if a = 0 then NaN else if 0 < a then PInf else NInf)
      else round64 (a / b))"
| "js_div (Fin a) _ = Fin 0"
| "js_div PInf (Fin b) = (if 0 \<le> b then PInf else NInf)"
| "js_div NInf (Fin b) = (if 0 \<le> b then NInf else PInf)"
| "js_div _ _ = NaN"

text \<open>\<^verbatim>\<open>Math.abs(a)\<close>.\<close>

fun js_abs :: "jsnum \<Rightarrow> jsnum" where
  "js_abs NaN = NaN"
| "js_abs NInf = PInf"
| "js_abs PInf = PInf"
| "js_abs (Fin a) = Fin \<bar>a\<bar>"

text \<open>\<^verbatim>\<open>Math.max(a, b)\<close>: \<open>NaN\<close> as soon as one argument is \<open>NaN\<close>.\<close>

fun js_max :: "jsnum \<Rightarrow> jsnum \<Rightarrow> jsnum" where
  "js_max NaN _ = NaN"
| "js_max _ NaN = NaN"
| "js_max PInf _ = PInf"
| "js_max _ PInf = PInf"
| "js_max NInf b = b"
| "js_max a NInf = a"
| "js_max (Fin a) (Fin b) = Fin (max a b)"

text \<open>
  \<^verbatim>\<open>a ** n\<close> for an exponent literal \<open>n\<close> that is a natural number; the
  exponent zero gives 1 for every base, \<open>NaN\<close> included. The source uses the
  exponent 2 only, and the square of a finite value is taken as the rounded exact
  square, as the multiplication \<^verbatim>\<open>a * a\<close> gives it.
\<close>

fun js_pow :: "jsnum \<Rightarrow> nat \<Rightarrow> jsnum" where
  "js_pow NaN n = (if n = 0 then Fin 1 else NaN)"
| "js_pow PInf n = (if n = 0 then Fin 1 else PInf)"
| "js_pow NInf n = (if n = 0 then Fin 1 else if even n then PInf else NInf)"
| "js_pow (Fin a) n = round64 (a ^ n)"

text \<open>\<^verbatim>\<open>Math.sqrt(a)\<close>, the rounded exact root as IEEE 754 defines it.\<close>

fun js_sqrt :: "jsnum \<Rightarrow> jsnum" where
  "js_sqrt NaN = NaN"
| "js_sqrt NInf = NaN"
| "js_sqrt PInf = PInf"
| "js_sqrt (Fin a) = (if a < 0 then NaN else round64 (sqrt a))"

text \<open>\<^verbatim>\<open>a >= b\<close>: false as soon as one operand is \<open>NaN\<close>.\<close>

fun js_ge :: "jsnum \<Rightarrow> jsnum \<Rightarrow> bool" where
  "js_ge NaN _ = False"
| "js_ge _ NaN = False"
| "js_ge PInf _ = True"
| "js_ge _ NInf = True"
| "js_ge NInf _ = False"
| "js_ge _ PInf = False"
| "js_ge (Fin a) (Fin b) = (b \<le> a)"

section \<open>Property values and their conversion to Numbers\<close>

text \<open>
  A property of an entity holds any value of the language: it may be absent and
  read as \<^verbatim>\<open>undefined\<close>, or be \<^verbatim>\<open>null\<close>, a boolean, a Number or a string. The
  arithmetic operators and \<^verbatim>\<open>Math.abs\<close> convert their operands by \<open>ToNumber\<close>:
  \<^verbatim>\<open>undefined\<close> becomes \<open>NaN\<close>, \<^verbatim>\<open>null\<close> and \<^verbatim>\<open>false\<close> become 0, \<^verbatim>\<open>true\<close>
  becomes 1, and a string becomes what the language's reading of numeric text
  gives, \<open>NaN\<close> when the text is not numeric. That reading is the parameter \<open>str\<close>.
  Objects, symbols and BigInts as property values are outside this model.
\<close>

datatype jsval = Undefined | Null | Boolean bool | Number jsnum | String string

fun ToNumber :: "(string \<Rightarrow> jsnum) \<Rightarrow> jsval \<Rightarrow> jsnum" where
  "ToNumber str Undefined = NaN"
| "ToNumber str Null = Fin 0"
| "ToNumber str (Boolean b) = (if b then Fin 1 else Fin 0)"
| "ToNumber str (Number v) = v"
| "ToNumber str (String s) = str s"

section \<open>Entities\<close>

text \<open>
  An entity is an object of the parsed drawing. The checker reads five of its
  properties: the layer, compared by \<^verbatim>\<open>===\<close> with two string literals (so that
  only a string can be equal to them; any other value and an absent layer are
  \<open>None\<close>), and four that it uses as numbers.
\<close>

record entity =
  layer :: "string option"
  x :: jsval
  y :: jsval
  width :: jsval
  height :: jsval

section \<open>The distance between two entities\<close>

text \<open>
  \<^verbatim>\<open>calculateDistance\<close>, lines 111 to 115. The two constants of its body are
  functions of their own here, so that statements can speak about them.
\<close>

definition xDist :: "(string \<Rightarrow> jsnum) \<Rightarrow> entity \<Rightarrow> entity \<Rightarrow> jsnum" where
  "xDist str entity1 entity2 =
     js_max (Fin 0)
       (js_sub (js_abs (js_sub (ToNumber str (x entity1)) (ToNumber str (x entity2))))
          (js_add (js_div (ToNumber str (width entity1)) (Fin 2))
                  (js_div (ToNumber str (width entity2)) (Fin 2))))"

definition yDist :: "(string \<Rightarrow> jsnum) \<Rightarrow> entity \<Rightarrow> entity \<Rightarrow> jsnum" where
  "yDist str entity1 entity2 =
     js_max (Fin 0)
       (js_sub (js_abs (js_sub (ToNumber str (y entity1)) (ToNumber str (y entity2))))
          (js_add (js_div (ToNumber str (height entity1)) (Fin 2))
                  (js_div (ToNumber str (height entity2)) (Fin 2))))"

definition calculateDistance :: "(string \<Rightarrow> jsnum) \<Rightarrow> entity \<Rightarrow> entity \<Rightarrow> jsnum" where
  "calculateDistance str entity1 entity2 =
     js_sqrt (js_add (js_pow (xDist str entity1 entity2) 2)
                     (js_pow (yDist str entity1 entity2) 2))"

section \<open>Numbers in template literals\<close>

text \<open>
  \<^verbatim>\<open>`${distance}`\<close> applies the language's Number-to-String conversion. Its special
  values and its integers up to \<open>2 ^ 53\<close> in magnitude, which print as their decimal
  digits, are modelled. The digits of every other finite value, the shortest that
  read back as the same binary64 value, are the parameter \<open>digits\<close>.
\<close>

fun natToString :: "nat \<Rightarrow> string" where
  "natToString n =
     (if n < 10 then [''0123456789'' ! n]
      else natToString (n div 10) @ [''0123456789'' ! (n mod 10)])"

declare natToString.simps [simp del]

fun NumberToString :: "(real \<Rightarrow> string) \<Rightarrow> jsnum \<Rightarrow> string" where
  "NumberToString digits NaN = ''NaN''"
| "NumberToString digits PInf = ''Infinity''"
| "NumberToString digits NInf = ''-Infinity''"
| "NumberToString digits (Fin a) =
     (if real_of_int \<lfloor>a\<rfloor> = a \<and> \<bar>a\<bar> \<le> 9007199254740992
      then (if a < 0 then ''-'' else []) @ natToString (nat \<lfloor>\<bar>a\<bar>\<rfloor>)
      else digits a)"

section \<open>The classifier\<close>

text \<open>
  The \<^verbatim>\<open>forEach\<close> of \<^verbatim>\<open>validateDxfFile\<close>, lines 87 to 97: the two arrays
  start empty and \<^verbatim>\<open>push\<close> appends at the end. The loop state is the pair of
  arrays.
\<close>

fun classify_loop :: "entity list \<Rightarrow> entity list \<Rightarrow> entity list \<Rightarrow> entity list \<times> entity list" where
  "classify_loop [] buildings boundaries = (buildings, boundaries)"
| "classify_loop (e # entities) buildings boundaries =
     (if layer e = Some ''BUILDING'' then classify_loop entities (buildings @ [e]) boundaries
      else if layer e = Some ''BOUNDARY'' then classify_loop entities buildings (boundaries @ [e])
      else classify_loop entities buildings boundaries)"

definition classify :: "entity list \<Rightarrow> entity list \<times> entity list" where
  "classify entities = classify_loop entities [] []"

text \<open>The entities that the loop puts in neither array.\<close>

definition ignored :: "entity list \<Rightarrow> entity list" where
  "ignored entities =
     filter (\<lambda>e. layer e \<noteq> Some ''BUILDING'' \<and> layer e \<noteq> Some ''BOUNDARY'') entities"

section \<open>The setback evaluator\<close>

record verdict =
  compliant :: bool
  message :: string

definition MIN_SETBACK_DISTANCE :: jsnum where
  "MIN_SETBACK_DISTANCE = Fin 10"

text \<open>The two object literals that \<^verbatim>\<open>checkSetbackDistance\<close> returns.\<close>

definition compliant_verdict :: "(real \<Rightarrow> string) \<Rightarrow> jsnum \<Rightarrow> verdict" where
  "compliant_verdict digits distance =
     \<lparr>compliant = True,
      message = ''Building is '' @ NumberToString digits distance
                @ '' feet away from boundary on one side.''\<rparr>"

definition noncompliant_verdict :: verdict where
  "noncompliant_verdict =
     \<lparr>compliant = False,
      message = ''Building does not meet the 10-ft setback requirement on any side.''\<rparr>"

text \<open>
  \<^verbatim>\<open>checkSetbackDistance\<close>, lines 120 to 138. The inner loop gives \<open>Some\<close> verdict
  when its \<^verbatim>\<open>return\<close> is reached and \<open>None\<close> when it runs to its end; the
  outer loop passes an inner \<^verbatim>\<open>return\<close> on and falls through to the last
  \<^verbatim>\<open>return\<close> otherwise.
\<close>

fun boundary_loop ::
  "(string \<Rightarrow> jsnum) \<Rightarrow> (real \<Rightarrow> string) \<Rightarrow> entity \<Rightarrow> entity list \<Rightarrow> verdict option" where
  "boundary_loop str digits building [] = None"
| "boundary_loop str digits building (boundary # boundaries) =
     (let distance = calculateDistance str building boundary in
      if js_ge distance MIN_SETBACK_DISTANCE then Some (compliant_verdict digits distance)
      else boundary_loop str digits building boundaries)"

fun checkSetbackDistance ::
  "(string \<Rightarrow> jsnum) \<Rightarrow> (real \<Rightarrow> string) \<Rightarrow> entity list \<Rightarrow> entity list \<Rightarrow> verdict" where
  "checkSetbackDistance str digits [] boundaries = noncompliant_verdict"
| "checkSetbackDistance str digits (building # buildings) boundaries =
     (case boundary_loop str digits building boundaries of
        Some v \<Rightarrow> v
      | None \<Rightarrow> checkSetbackDistance str digits buildings boundaries)"

text \<open>
  The part of \<^verbatim>\<open>validateDxfFile\<close> after the parse, lines 86 to 104: classify,
  then evaluate. The result is the \<^verbatim>\<open>setbackCompliance\<close> property of the object
  that the source returns, its only property.
\<close>

definition validateEntities ::
  "(string \<Rightarrow> jsnum) \<Rightarrow> (real \<Rightarrow> string) \<Rightarrow> entity list \<Rightarrow> verdict" where
  "validateEntities str digits entities =
     (case classify entities of
        (buildings, boundaries) \<Rightarrow> checkSetbackDistance str digits buildings boundaries)"

section \<open>Notions of the specification\<close>

text \<open>
  The definitions of this section follow the words of the specification, not the
  source; the theorems compare the source's functions with them.
\<close>

text \<open>
  The axis gap and the distance of the specification,
  \<open>max(0, |a.pos - b.pos| - (dimA/2 + dimB/2))\<close> and \<open>sqrt(xGap\<^sup>2 + yGap\<^sup>2)\<close>: first
  with the operators of the language, then as the real numbers that the formulas
  denote.
\<close>

definition axisGap :: "jsnum \<Rightarrow> jsnum \<Rightarrow> jsnum \<Rightarrow> jsnum \<Rightarrow> jsnum" where
  "axisGap posA posB dimA dimB =
     js_max (Fin 0)
       (js_sub (js_abs (js_sub posA posB)) (js_add (js_div dimA (Fin 2)) (js_div dimB (Fin 2))))"

definition gapDistance :: "jsnum \<Rightarrow> jsnum \<Rightarrow> jsnum" where
  "gapDistance xGap yGap = js_sqrt (js_add (js_pow xGap 2) (js_pow yGap 2))"

definition exact_gap :: "real \<Rightarrow> real \<Rightarrow> real \<Rightarrow> real \<Rightarrow> real" where
  "exact_gap posA posB dimA dimB = max 0 (\<bar>posA - posB\<bar> - (dimA / 2 + dimB / 2))"

definition exact_distance :: "real \<Rightarrow> real \<Rightarrow> real" where
  "exact_distance xGap yGap = sqrt (xGap\<^sup>2 + yGap\<^sup>2)"

text \<open>
  The operations of one axis round nothing when the results of the subtraction, of
  the two halvings, of their sum and of the last subtraction are binary64 values.
\<close>

definition axis_exact :: "real \<Rightarrow> real \<Rightarrow> real \<Rightarrow> real \<Rightarrow> bool" where
  "axis_exact posA posB dimA dimB =
     (is_binary64 (posA - posB) \<and> is_binary64 (dimA / 2) \<and> is_binary64 (dimB / 2)
      \<and> is_binary64 (dimA / 2 + dimB / 2)
      \<and> is_binary64 (\<bar>posA - posB\<bar> - (dimA / 2 + dimB / 2)))"

text \<open>
  A pair qualifies when its distance meets the threshold; the pairs are taken with
  the buildings as the outer and the boundaries as the inner sequence, and the first
  qualifying pair is the first one in that order.
\<close>

definition qualifies :: "(string \<Rightarrow> jsnum) \<Rightarrow> entity \<times> entity \<Rightarrow> bool" where
  "qualifies str p = js_ge (calculateDistance str (fst p) (snd p)) MIN_SETBACK_DISTANCE"

definition first_qualifying_pair ::
  "(string \<Rightarrow> jsnum) \<Rightarrow> entity list \<Rightarrow> entity list \<Rightarrow> (entity \<times> entity) option" where
  "first_qualifying_pair str buildings boundaries =
     find (qualifies str) (List.product buildings boundaries)"

text \<open>
  A numeric field is not a number when it is absent, holds \<open>NaN\<close>, or holds a
  string whose text is not numeric. A field is a finite number when its conversion
  is a finite binary64 value.
\<close>

fun not_a_number :: "(string \<Rightarrow> jsnum) \<Rightarrow> jsval \<Rightarrow> bool" where
  "not_a_number str Undefined = True"
| "not_a_number str (Number v) = (v = NaN)"
| "not_a_number str (String s) = (str s = NaN)"
| "not_a_number str Null = False"
| "not_a_number str (Boolean b) = False"

definition malformed :: "(string \<Rightarrow> jsnum) \<Rightarrow> entity \<Rightarrow> bool" where
  "malformed str e =
     (not_a_number str (x e) \<or> not_a_number str (y e)
      \<or> not_a_number str (width e) \<or> not_a_number str (height e))"

definition finite_field :: "(string \<Rightarrow> jsnum) \<Rightarrow> jsval \<Rightarrow> bool" where
  "finite_field str v = (case ToNumber str v of Fin r \<Rightarrow> is_binary64 r | _ \<Rightarrow> False)"

definition finite_fields :: "(string \<Rightarrow> jsnum) \<Rightarrow> entity \<Rightarrow> bool" where
  "finite_fields str e =
     (finite_field str (x e) \<and> finite_field str (y e)
      \<and> finite_field str (width e) \<and> finite_field str (height e))"


section \<open>Concrete entities\<close>

text \<open>An entity of the given layer whose position and extents are finite Numbers.\<close>

definition rect :: "string \<Rightarrow> real \<Rightarrow> real \<Rightarrow> real \<Rightarrow> real \<Rightarrow> entity" where
  "rect l px py w h =
     \<lparr>layer = Some l, x = Number (Fin px), y = Number (Fin py),
      width = Number (Fin w), height = Number (Fin h)\<rparr>"

text \<open>Scenario A of the specification.\<close>

definition scenarioA_building :: entity where
  "scenarioA_building = rect ''BUILDING'' 0 0 4 4"

definition scenarioA_boundary :: entity where
  "scenarioA_boundary = rect ''BOUNDARY'' 20 0 2 2"

text \<open>
  Scenario B of the specification has the building of scenario A and this boundary,
  at distance 2. The two further entities make a two by two example: the distances
  of the pairs, buildings outer and boundaries inner, are 2, 12, 17 and 7.
\<close>

definition scenarioB_boundary :: entity where
  "scenarioB_boundary = rect ''BOUNDARY'' 5 0 2 2"

definition middle_boundary :: entity where
  "middle_boundary = rect ''BOUNDARY'' 15 0 2 2"

definition second_building :: entity where
  "second_building = rect ''BUILDING'' 25 0 4 4"

text \<open>
  The building of scenario A with its \<^verbatim>\<open>x\<close> never set, and with \<^verbatim>\<open>x: null\<close>; a
  building with a negative width.
\<close>

definition no_x_entity :: entity where
  "no_x_entity =
     \<lparr>layer = Some ''BUILDING'', x = Undefined, y = Number (Fin 0),
      width = Number (Fin 4), height = Number (Fin 4)\<rparr>"

definition null_x_building :: entity where
  "null_x_building =
     \<lparr>layer = Some ''BUILDING'', x = Null, y = Number (Fin 0),
      width = Number (Fin 4), height = Number (Fin 4)\<rparr>"


text \<open>A boundary whose position on the x-axis is \<open>+Infinity\<close>.\<close>

definition infinite_x_entity :: entity where
  "infinite_x_entity =
     \<lparr>layer = Some ''BOUNDARY'', x = Number PInf, y = Number (Fin 0),
      width = Number (Fin 2), height = Number (Fin 2)\<rparr>"

text \<open>A boundary at \<open>2 ^ 600\<close> on the x-axis, a finite Number whose square overflows.\<close>

definition far_boundary :: entity where
  "far_boundary = rect ''BOUNDARY'' (2 ^ 600) 0 2 2"



text \<open>
  A rendering of non-integer values and a reading of strings, for closed examples
  none of whose values is a non-integer or a string.
\<close>

definition no_digits :: "real \<Rightarrow> string" where
  "no_digits a = []"

definition no_strings :: "string \<Rightarrow> jsnum" where
  "no_strings s = NaN"

section \<open>Facts about rounding\<close>

lemma round_even_of_int [simp]: "round_even (of_int n) = n"
  by (simp add: round_even_def)

lemma round_even_minus: "round_even (- q) = - round_even q"
proof (cases "q = of_int \<lfloor>q\<rfloor>")
  case True
  then obtain n where "q = of_int n" ..
  then have "- q = of_int (- n)" by simp
  then show ?thesis
    using \<open>q = of_int n\<close> by (simp only: round_even_of_int)
next
  case False
  have fl: "\<lfloor>- q\<rfloor> = - \<lfloor>q\<rfloor> - 1"
    using False by (simp add: floor_minus ceiling_altdef)
  have d: "0 < q - of_int \<lfloor>q\<rfloor>" "q - of_int \<lfloor>q\<rfloor> < 1"
    using False by linarith+
  show ?thesis
    unfolding round_even_def Let_def fl using d
    by (auto simp: field_simps)
qed

lemma round_even_bounds: "\<lfloor>q\<rfloor> \<le> round_even q" "round_even q \<le> \<lfloor>q\<rfloor> + 1"
  by (simp_all add: round_even_def Let_def)

lemma round_even_mono:
  assumes "q \<le> q'"
  shows "round_even q \<le> round_even q'"
proof (cases "\<lfloor>q\<rfloor> = \<lfloor>q'\<rfloor>")
  case True
  have "q - of_int \<lfloor>q'\<rfloor> \<le> q' - of_int \<lfloor>q'\<rfloor>"
    using assms by simp
  then show ?thesis
    unfolding round_even_def Let_def True by auto
next
  case False
  with assms have "\<lfloor>q\<rfloor> < \<lfloor>q'\<rfloor>"
    using floor_mono [of q q'] by linarith
  with round_even_bounds(2) [of q] round_even_bounds(1) [of q'] show ?thesis
    by linarith
qed

lemma round_even_ge: "of_int n \<le> q \<Longrightarrow> n \<le> round_even q"
  using round_even_mono [of "of_int n" q] by simp

lemma round_even_le: "q \<le> of_int n \<Longrightarrow> round_even q \<le> n"
  using round_even_mono [of q "of_int n"] by simp


lemma ulp_exponent_minus [simp]: "ulp_exponent (- r) = ulp_exponent r"
  by (simp add: ulp_exponent_def)

lemma round_value_zero [simp]: "round_value 0 = 0"
  by (simp add: round_value_def)

lemma round_value_minus: "round_value (- r) = - round_value r"
  by (simp add: round_value_def round_even_minus)

lemma round_value_nonneg:
  assumes "0 \<le> r"
  shows "0 \<le> round_value r"
proof -
  have "0 \<le> r / 2 powr of_int (ulp_exponent r)"
    using assms by simp
  then have "0 \<le> round_even (r / 2 powr of_int (ulp_exponent r))"
    using round_even_ge [of 0] by simp
  then show ?thesis
    by (simp add: round_value_def)
qed

lemma round_value_nonpos: "r \<le> 0 \<Longrightarrow> round_value r \<le> 0"
  using round_value_nonneg [of "- r"] by (simp add: round_value_minus)

lemma binade:
  assumes "0 < r"
  shows "2 powr of_int \<lfloor>log 2 r\<rfloor> \<le> r" "r < 2 powr (of_int \<lfloor>log 2 r\<rfloor> + 1)"
  using floor_log_eq_powr_iff [of r 2 "\<lfloor>log 2 r\<rfloor>"] assms by simp_all

lemma two_powr_int: "0 \<le> j \<Longrightarrow> (2::real) powr of_int j = of_int (2 ^ nat j)"
  by (simp add: powr_real_of_int)

lemma round_value_exact:
  assumes r: "r = of_int m * 2 powr of_int e"
    and m: "\<bar>m\<bar> < 2 ^ 53"
    and e: "- 1074 \<le> e"
  shows "round_value r = r"
proof (cases "r = 0")
  case True
  then show ?thesis by simp
next
  case False
  define E where "E = ulp_exponent r"
  have pos: "0 < \<bar>r\<bar>" using False by simp
  have "\<bar>r\<bar> = of_int \<bar>m\<bar> * 2 powr of_int e"
    by (simp add: r abs_mult)
  also have "\<dots> < 2 ^ 53 * 2 powr of_int e"
  proof -
    have "real_of_int \<bar>m\<bar> < 2 ^ 53"
      using m by (metis of_int_less_numeral_power_cancel_iff)
    then show ?thesis by simp
  qed
  also have "\<dots> = 2 powr (of_int (e + 52) + 1)"
    by (simp add: powr_add)
  finally have "\<bar>r\<bar> < 2 powr (of_int (e + 52) + 1)" .
  moreover have "2 powr of_int \<lfloor>log 2 \<bar>r\<bar>\<rfloor> \<le> \<bar>r\<bar>"
    using binade(1) [OF pos] .
  ultimately have "(2::real) powr of_int \<lfloor>log 2 \<bar>r\<bar>\<rfloor> < 2 powr (of_int (e + 52) + 1)"
    by linarith
  then have "of_int \<lfloor>log 2 \<bar>r\<bar>\<rfloor> < (of_int (e + 52) + 1 :: real)"
    by simp
  then have "\<lfloor>log 2 \<bar>r\<bar>\<rfloor> \<le> e + 52"
    by linarith
  with e have Ee: "E \<le> e"
    by (simp add: E_def ulp_exponent_def)
  have "r / 2 powr of_int E = of_int m * 2 powr of_int (e - E)"
    by (simp add: r powr_diff)
  also have "\<dots> = of_int (m * 2 ^ nat (e - E))"
    using two_powr_int [of "e - E"] Ee by simp
  finally have q: "r / 2 powr of_int E = of_int (m * 2 ^ nat (e - E))" .
  have "round_value r = of_int (round_even (r / 2 powr of_int E)) * 2 powr of_int E"
    using False by (simp add: round_value_def E_def)
  also have "\<dots> = r / 2 powr of_int E * 2 powr of_int E"
    by (simp only: q round_even_of_int)
  also have "\<dots> = r"
    by simp
  finally show ?thesis .
qed

lemma round_value_of_int:
  assumes "\<bar>n\<bar> < 2 ^ 53"
  shows "round_value (of_int n) = of_int n"
  using round_value_exact [of "of_int n" n 0] assms by simp


lemma ulp_exponent_mono:
  assumes "0 < r" "r \<le> s"
  shows "ulp_exponent r \<le> ulp_exponent s"
proof -
  have "log 2 r \<le> log 2 s"
    using assms by simp
  then have "\<lfloor>log 2 r\<rfloor> \<le> \<lfloor>log 2 s\<rfloor>"
    by (rule floor_mono)
  then show ?thesis
    using assms by (simp add: ulp_exponent_def)
qed

lemma round_value_mono_pos:
  assumes r: "0 < r" and rs: "r \<le> s"
  shows "round_value r \<le> round_value s"
proof -
  define kr where "kr = \<lfloor>log 2 r\<rfloor>"
  define ks where "ks = \<lfloor>log 2 s\<rfloor>"
  define Er where "Er = ulp_exponent r"
  define Es where "Es = ulp_exponent s"
  have s: "0 < s" using r rs by linarith
  have Er: "Er = max (kr - 52) (- 1074)" and Es: "Es = max (ks - 52) (- 1074)"
    using r s by (simp_all add: Er_def Es_def kr_def ks_def ulp_exponent_def)
  have vr: "round_value r = of_int (round_even (r / 2 powr of_int Er)) * 2 powr of_int Er"
    using r by (simp add: round_value_def Er_def)
  have vs: "round_value s = of_int (round_even (s / 2 powr of_int Es)) * 2 powr of_int Es"
    using s by (simp add: round_value_def Es_def)
  have le: "Er \<le> Es"
    unfolding Er_def Es_def using r rs by (rule ulp_exponent_mono)
  show ?thesis
  proof (cases "Er = Es")
    case True
    have "r / 2 powr of_int Es \<le> s / 2 powr of_int Es"
      using rs by (simp add: divide_right_mono)
    then have "round_even (r / 2 powr of_int Es) \<le> round_even (s / 2 powr of_int Es)"
      by (rule round_even_mono)
    then have "real_of_int (round_even (r / 2 powr of_int Es)) * 2 powr of_int Es
        \<le> real_of_int (round_even (s / 2 powr of_int Es)) * 2 powr of_int Es"
      by (simp add: mult_right_mono)
    then show ?thesis
      by (simp add: vr vs True)
  next
    case False
    with le have lt: "Er < Es" by simp
    then have Es_eq: "Es = ks - 52"
      using Er Es by linarith
    have up: "Er + 53 \<le> ks"
      using lt Es_eq by linarith
    have "r < 2 powr (of_int kr + 1)"
      unfolding kr_def using r by (rule binade(2))
    also have "\<dots> \<le> 2 powr of_int (Er + 53)"
      using Er by simp
    finally have "r < 2 powr of_int (Er + 53)" .
    then have "r / 2 powr of_int Er < 2 powr of_int (Er + 53) / 2 powr of_int Er"
      by (simp add: divide_strict_right_mono)
    also have "\<dots> = of_int (2 ^ 53)"
      by (simp add: powr_diff [symmetric])
    finally have "round_even (r / 2 powr of_int Er) \<le> 2 ^ 53"
      using round_even_le [of "r / 2 powr of_int Er" "2 ^ 53"] by simp
    then have "real_of_int (round_even (r / 2 powr of_int Er)) \<le> 2 ^ 53"
      by (metis of_int_le_numeral_power_cancel_iff)
    then have "round_value r \<le> 2 ^ 53 * 2 powr of_int Er"
      by (simp add: vr mult_right_mono)
    also have "\<dots> = 2 powr of_int (Er + 53)"
      by (simp add: powr_add)
    also have "\<dots> \<le> 2 powr of_int ks"
      using up by simp
    finally have A: "round_value r \<le> 2 powr of_int ks" .
    have "2 powr of_int ks \<le> s"
      unfolding ks_def using s by (rule binade(1))
    then have "2 powr of_int ks / 2 powr of_int Es \<le> s / 2 powr of_int Es"
      by (simp add: divide_right_mono)
    moreover have "(2::real) powr of_int ks / 2 powr of_int Es = of_int (2 ^ 52)"
      by (simp add: powr_diff [symmetric] Es_eq)
    ultimately have "2 ^ 52 \<le> round_even (s / 2 powr of_int Es)"
      using round_even_ge [of "2 ^ 52" "s / 2 powr of_int Es"] by simp
    then have "(2 ^ 52 :: real) \<le> real_of_int (round_even (s / 2 powr of_int Es))"
      by (metis numeral_power_le_of_int_cancel_iff)
    then have "2 ^ 52 * 2 powr of_int Es \<le> round_value s"
      by (simp add: vs mult_right_mono)
    moreover have "2 ^ 52 * (2::real) powr of_int Es = 2 powr of_int ks"
      by (simp add: Es_eq powr_diff)
    ultimately have "2 powr of_int ks \<le> round_value s"
      by simp
    with A show ?thesis by linarith
  qed
qed

lemma round_value_mono:
  assumes "r \<le> s"
  shows "round_value r \<le> round_value s"
proof -
  consider "0 < r" | "s < 0" | "r \<le> 0" "0 \<le> s"
    using assms by linarith
  then show ?thesis
  proof cases
    case 1
    then show ?thesis using assms by (rule round_value_mono_pos)
  next
    case 2
    with assms have "0 < - s" "- s \<le> - r" by simp_all
    then have "round_value (- s) \<le> round_value (- r)"
      by (rule round_value_mono_pos)
    then show ?thesis
      by (simp add: round_value_minus)
  next
    case 3
    then show ?thesis
      using round_value_nonpos [of r] round_value_nonneg [of s] by linarith
  qed
qed

lemma round64_cases:
  obtains (fin) v where "round64 r = Fin v" "v = round_value r" "\<bar>v\<bar> < 2 ^ 1024"
  | (pinf) "round64 r = PInf" "2 ^ 1024 \<le> round_value r"
  | (ninf) "round64 r = NInf" "round_value r \<le> - (2 ^ 1024)"
  unfolding round64_def Let_def by (cases "2 ^ 1024 \<le> round_value r"; cases "round_value r \<le> - (2 ^ 1024)") auto

lemma round64_not_NaN [simp]: "round64 r \<noteq> NaN"
  by (simp add: round64_def Let_def)

lemma round64_zero [simp]: "round64 0 = Fin 0"
  by (simp add: round64_def)

lemma round64_exact:
  assumes "round_value r = r" and "\<bar>r\<bar> < 2 ^ 1024"
  shows "round64 r = Fin r"
  using assms by (auto simp: round64_def Let_def)

lemma round64_of_int:
  assumes "\<bar>n\<bar> < 2 ^ 53"
  shows "round64 (of_int n) = Fin (of_int n)"
proof (rule round64_exact)
  show "round_value (of_int n) = of_int n"
    using assms by (rule round_value_of_int)
  have "\<bar>n\<bar> < 2 ^ 1024"
    using assms by (rule less_trans) simp
  then show "\<bar>real_of_int n\<bar> < 2 ^ 1024"
    by (metis of_int_abs of_int_less_numeral_power_cancel_iff)
qed

lemma round64_numeral [simp]:
  "numeral k < (2 ^ 53 :: int) \<Longrightarrow> round64 (numeral k) = Fin (numeral k)"
  using round64_of_int [of "numeral k"] by simp

lemma round64_neg_numeral [simp]:
  "numeral k < (2 ^ 53 :: int) \<Longrightarrow> round64 (- numeral k) = Fin (- numeral k)"
  using round64_of_int [of "- numeral k"] by simp

lemma round64_one [simp]: "round64 1 = Fin 1"
  using round64_of_int [of 1] by simp

lemma round64_nonneg:
  assumes "0 \<le> r"
  obtains v where "round64 r = Fin v" "0 \<le> v" | "round64 r = PInf"
proof (cases r rule: round64_cases)
  case (fin v)
  with round_value_nonneg [OF assms] that(1) show ?thesis by simp
next
  case pinf
  with that(2) show ?thesis by simp
next
  case ninf
  with round_value_nonneg [OF assms] show ?thesis by simp
qed


lemma js_abs_round64_minus: "js_abs (round64 (- r)) = js_abs (round64 r)"
  by (simp add: round64_def Let_def round_value_minus)

lemma round64_mono:
  assumes "r \<le> s"
  shows "js_ge (round64 s) (round64 r)"
  using round_value_mono [OF assms] by (simp add: round64_def Let_def)

lemma round64_minus_Fin: "round64 r = Fin v \<Longrightarrow> round64 (- r) = Fin (- v)"
  by (auto simp: round64_def Let_def round_value_minus split: if_splits)

lemma is_binary64_minus: "is_binary64 r \<Longrightarrow> is_binary64 (- r)"
  unfolding is_binary64_def by (rule round64_minus_Fin)

lemma is_binary64_abs: "is_binary64 r \<Longrightarrow> is_binary64 \<bar>r\<bar>"
  by (simp add: abs_if is_binary64_minus)

lemma is_binary64D: "is_binary64 r \<Longrightarrow> round_value r = r \<and> \<bar>r\<bar> < 2 ^ 1024"
  unfolding is_binary64_def by (cases r rule: round64_cases) auto

lemma round64_bounded:
  assumes B: "is_binary64 B" and r: "\<bar>r\<bar> \<le> B"
  obtains v where "round64 r = Fin v" "\<bar>v\<bar> \<le> B"
proof -
  have up: "js_ge (round64 B) (round64 r)"
    using r by (intro round64_mono) linarith
  have low: "js_ge (round64 r) (round64 (- B))"
    using r by (intro round64_mono) linarith
  have B': "round64 B = Fin B" "round64 (- B) = Fin (- B)"
    using B is_binary64_minus [OF B] by (simp_all add: is_binary64_def)
  show ?thesis
  proof (cases "round64 r")
    case NaN
    then show ?thesis by simp
  next
    case NInf
    with low B' show ?thesis by simp
  next
    case (Fin v)
    with up low B' have "\<bar>v\<bar> \<le> B" by simp
    with Fin that show ?thesis by blast
  next
    case PInf
    with up B' show ?thesis by simp
  qed
qed

lemma is_binary64_largest: "is_binary64 (2 ^ 1024 - 2 ^ 971)"
proof -
  have "round_value (2 ^ 1024 - 2 ^ 971) = 2 ^ 1024 - 2 ^ 971"
    by (rule round_value_exact [of _ "2 ^ 53 - 1" 971]) simp_all
  then show ?thesis
    unfolding is_binary64_def by (rule round64_exact) simp
qed

lemma is_binary64_half_largest: "is_binary64 (2 ^ 1023 - 2 ^ 970)"
proof -
  have "round_value (2 ^ 1023 - 2 ^ 970) = 2 ^ 1023 - 2 ^ 970"
    by (rule round_value_exact [of _ "2 ^ 53 - 1" 970]) simp_all
  then show ?thesis
    unfolding is_binary64_def by (rule round64_exact) simp
qed

lemma is_binary64_le_largest:
  assumes "is_binary64 w"
  shows "\<bar>w\<bar> \<le> 2 ^ 1024 - 2 ^ 971"
proof (rule ccontr)
  assume "\<not> \<bar>w\<bar> \<le> 2 ^ 1024 - 2 ^ 971"
  then have big: "2 ^ 1024 - 2 ^ 971 < \<bar>w\<bar>" by simp
  define a where "a = \<bar>w\<bar>"
  from is_binary64D [OF is_binary64_abs [OF assms]]
  have rv: "round_value a = a" and lt: "a < 2 ^ 1024"
    by (simp_all add: a_def)
  have pos: "0 < a"
    using big unfolding a_def by (rule less_trans [rotated]) simp
  have "(2::real) powr 1023 \<le> a"
    using big by (simp add: a_def)
  moreover have "a < 2 powr (1023 + 1)"
    using lt by simp
  ultimately have fl: "\<lfloor>log 2 a\<rfloor> = 1023"
    using floor_log_eq_powr_iff [of a 2 1023] pos by simp
  have E: "ulp_exponent a = 971"
    using pos by (simp add: ulp_exponent_def fl)
  define q where "q = a / 2 ^ 971"
  have "round_value a = of_int (round_even q) * 2 ^ 971"
    using pos by (simp add: round_value_def E q_def)
  with rv have "q = of_int (round_even q)"
    by (simp add: q_def)
  moreover have "2 ^ 53 - 1 < q"
    using big by (simp add: q_def a_def field_simps)
  moreover have "q < 2 ^ 53"
    using lt by (simp add: q_def field_simps)
  ultimately have "real_of_int (2 ^ 53 - 1) < real_of_int (round_even q)"
    and "real_of_int (round_even q) < real_of_int (2 ^ 53)"
    by simp_all
  then have "2 ^ 53 - 1 < round_even q" "round_even q < 2 ^ 53"
    by (simp_all only: of_int_less_iff)
  then show False by linarith
qed

lemma half_finite:
  assumes "is_binary64 w"
  obtains h where "js_div (Fin w) (Fin 2) = Fin h" "\<bar>h\<bar> \<le> 2 ^ 1023 - 2 ^ 970"
proof -
  have "\<bar>w / 2\<bar> \<le> 2 ^ 1023 - 2 ^ 970"
    using is_binary64_le_largest [OF assms] by simp
  from round64_bounded [OF is_binary64_half_largest this] that show ?thesis
    by auto
qed

lemma half_sum_finite:
  assumes "is_binary64 w1" "is_binary64 w2"
  obtains s where "js_add (js_div (Fin w1) (Fin 2)) (js_div (Fin w2) (Fin 2)) = Fin s"
proof -
  from half_finite [OF assms(1)] obtain h1
    where h1: "js_div (Fin w1) (Fin 2) = Fin h1" "\<bar>h1\<bar> \<le> 2 ^ 1023 - 2 ^ 970" .
  from half_finite [OF assms(2)] obtain h2
    where h2: "js_div (Fin w2) (Fin 2) = Fin h2" "\<bar>h2\<bar> \<le> 2 ^ 1023 - 2 ^ 970" .
  have "\<bar>h1 + h2\<bar> \<le> 2 ^ 1024 - 2 ^ 971"
    using h1(2) h2(2) by simp
  from round64_bounded [OF is_binary64_largest this] obtain s
    where "round64 (h1 + h2) = Fin s" by blast
  with h1(1) h2(1) that show ?thesis by simp
qed

lemma round64_in_binade:
  assumes k: "2 powr of_int k \<le> r" "r < 2 powr (of_int k + 1)"
    and range: "- 1022 \<le> k" "k < 1023"
  shows "round64 r = Fin (of_int (round_even (r / 2 powr of_int (k - 52))) * 2 powr of_int (k - 52))"
proof -
  have pos: "0 < r"
    using k(1) by (rule less_le_trans [rotated]) simp
  then have fl: "\<lfloor>log 2 \<bar>r\<bar>\<rfloor> = k"
    using floor_log_eq_powr_iff [of r 2 k] k by simp
  have E: "ulp_exponent r = k - 52"
    using range by (simp add: ulp_exponent_def fl)
  define v :: real where "v = of_int (round_even (r / 2 powr of_int (k - 52))) * 2 powr of_int (k - 52)"
  have rv: "round_value r = v"
    using pos by (simp add: round_value_def E v_def)
  have "r \<le> 2 powr (of_int k + 1)" using k(2) by simp
  then have "round_value r \<le> round_value (2 powr (of_int k + 1))"
    by (rule round_value_mono)
  also have "round_value (2 powr (of_int k + 1)) = 2 powr (of_int k + 1)"
    using range by (intro round_value_exact [of _ 1 "k + 1"]) simp_all
  also have "\<dots> \<le> 2 powr 1023"
    using range by (intro powr_mono) simp_all
  finally have "v \<le> 2 ^ 1023" by (simp add: rv)
  moreover have "0 \<le> v"
    using round_value_nonneg [of r] pos by (simp add: rv)
  ultimately have "round64 r = Fin v"
    by (simp add: round64_def rv)
  then show ?thesis
    by (simp only: v_def)
qed

lemma round_value_significand:
  obtains m where "round_value r = of_int m * 2 powr of_int (ulp_exponent r)" "\<bar>m\<bar> \<le> 2 ^ 53"
proof (cases "r = 0")
  case True
  then have "round_value r = of_int 0 * 2 powr of_int (ulp_exponent r)" by simp
  with that [of 0] show ?thesis by simp
next
  case False
  define E where "E = ulp_exponent r"
  define m where "m = round_even (r / 2 powr of_int E)"
  have v: "round_value r = of_int m * 2 powr of_int E"
    using False by (simp add: round_value_def E_def m_def)
  have E: "\<lfloor>log 2 \<bar>r\<bar>\<rfloor> - 52 \<le> E"
    by (simp add: E_def ulp_exponent_def)
  have pos: "0 < \<bar>r\<bar>" using False by simp
  have "\<bar>r\<bar> < 2 powr (of_int \<lfloor>log 2 \<bar>r\<bar>\<rfloor> + 1)"
    using pos by (rule binade(2))
  also have "\<dots> \<le> 2 powr of_int (E + 53)"
    using E by simp
  finally have "\<bar>r\<bar> / 2 powr of_int E < 2 powr of_int (E + 53) / 2 powr of_int E"
    by (simp add: divide_strict_right_mono)
  also have "\<dots> = 2 ^ 53"
    by (simp add: powr_diff [symmetric])
  finally have q: "\<bar>r / 2 powr of_int E\<bar> < 2 ^ 53"
    by simp
  have "r / 2 powr of_int E < 2 ^ 53" "- (2 ^ 53) < r / 2 powr of_int E"
    using q unfolding abs_less_iff by linarith+
  then have "r / 2 powr of_int E \<le> of_int (2 ^ 53)" "of_int (- (2 ^ 53)) \<le> r / 2 powr of_int E"
    by simp_all
  then have "m \<le> 2 ^ 53" "- (2 ^ 53) \<le> m"
    unfolding m_def by (simp_all only: round_even_le round_even_ge)
  then have "\<bar>m\<bar> \<le> 2 ^ 53"
    by linarith
  with v that [of m] show ?thesis
    by (simp add: E_def)
qed

lemma scaled_is_binary64:
  assumes m: "\<bar>m\<bar> \<le> 2 ^ 53" and e: "- 1074 \<le> e"
    and range: "\<bar>real_of_int m * 2 powr of_int e\<bar> < 2 ^ 1024"
  shows "is_binary64 (of_int m * 2 powr of_int e)"
proof -
  from m consider "\<bar>m\<bar> < 2 ^ 53" | "m = 2 ^ 53" | "m = - (2 ^ 53)"
    by linarith
  then have "round_value (of_int m * 2 powr of_int e) = real_of_int m * 2 powr of_int e"
  proof cases
    case 1
    with e show ?thesis
      by (intro round_value_exact [of _ m e]) simp_all
  next
    case 2
    have "real_of_int m * 2 powr of_int e = of_int (2 ^ 52) * 2 powr of_int (e + 1)"
      by (simp add: 2 powr_add)
    with e show ?thesis
      by (intro round_value_exact [of _ "2 ^ 52" "e + 1"]) simp_all
  next
    case 3
    have "real_of_int m * 2 powr of_int e = of_int (- (2 ^ 52)) * 2 powr of_int (e + 1)"
      by (simp add: 3 powr_add)
    with e show ?thesis
      by (intro round_value_exact [of _ "- (2 ^ 52)" "e + 1"]) simp_all
  qed
  then show ?thesis
    unfolding is_binary64_def using range by (rule round64_exact)
qed

lemma round_value_is_binary64:
  assumes "\<bar>round_value r\<bar> < 2 ^ 1024"
  shows "is_binary64 (round_value r)"
proof -
  obtain m where m: "round_value r = of_int m * 2 powr of_int (ulp_exponent r)" "\<bar>m\<bar> \<le> 2 ^ 53"
    by (rule round_value_significand)
  have "- 1074 \<le> ulp_exponent r"
    by (simp add: ulp_exponent_def)
  with m(2) have "is_binary64 (of_int m * 2 powr of_int (ulp_exponent r))"
    using assms unfolding m(1) by (rule scaled_is_binary64)
  then show ?thesis
    by (simp only: m(1))
qed

text \<open>
  Halving a binary64 value rounds nothing unless the value is subnormal: its
  magnitude is then below \<open>2 ^ -1021\<close>.
\<close>

lemma half_is_binary64:
  assumes w: "is_binary64 w" and normal: "2 powr (- 1021) \<le> \<bar>w\<bar>"
  shows "is_binary64 (w / 2)"
proof -
  obtain m where m: "round_value w = of_int m * 2 powr of_int (ulp_exponent w)" "\<bar>m\<bar> \<le> 2 ^ 53"
    by (rule round_value_significand)
  from is_binary64D [OF w] have rv: "round_value w = w" and lt: "\<bar>w\<bar> < 2 ^ 1024"
    by simp_all
  have pos: "0 < \<bar>w\<bar>"
    using normal by (rule less_le_trans [rotated]) simp
  have "log 2 (2 powr (- 1021)) \<le> log 2 \<bar>w\<bar>"
    using normal pos by (subst log_le_cancel_iff) simp_all
  then have "- 1021 \<le> \<lfloor>log 2 \<bar>w\<bar>\<rfloor>"
    by (simp add: le_floor_iff)
  then have E: "- 1073 \<le> ulp_exponent w"
    unfolding ulp_exponent_def by linarith
  have half: "w / 2 = of_int m * 2 powr of_int (ulp_exponent w - 1)"
    using m(1) by (simp add: rv powr_diff)
  have "is_binary64 (of_int m * 2 powr of_int (ulp_exponent w - 1))"
  proof (rule scaled_is_binary64 [OF m(2)])
    show "- 1074 \<le> ulp_exponent w - 1"
      using E by simp
    show "\<bar>real_of_int m * 2 powr of_int (ulp_exponent w - 1)\<bar> < 2 ^ 1024"
      using lt unfolding half [symmetric] by simp
  qed
  then show ?thesis
    by (simp only: half)
qed

lemma round64_is_binary64: "round64 r = Fin v \<Longrightarrow> is_binary64 v"
  using round_value_is_binary64 [of r] by (cases r rule: round64_cases) simp_all

section \<open>Facts about the operators and the distance\<close>

lemma js_abs_sub_swap: "js_abs (js_sub p q) = js_abs (js_sub q p)"
proof (cases p; cases q)
  fix a b
  assume "p = Fin a" "q = Fin b"
  then show ?thesis
    using js_abs_round64_minus [of "a - b"] by simp
qed simp_all

lemma js_add_swap: "js_add p q = js_add q p"
  by (cases p; cases q) (simp_all add: add.commute)

lemma js_add_NaN_right [simp]: "js_add p NaN = NaN"
  by (cases p) simp_all

lemma js_sub_NaN_right [simp]: "js_sub p NaN = NaN"
  by (cases p) simp_all

lemma js_max_NaN_right [simp]: "js_max p NaN = NaN"
  by (cases p) simp_all


lemma xDist_axisGap:
  "xDist str a b =
     axisGap (ToNumber str (x a)) (ToNumber str (x b))
       (ToNumber str (width a)) (ToNumber str (width b))"
  by (simp add: xDist_def axisGap_def)

lemma yDist_axisGap:
  "yDist str a b =
     axisGap (ToNumber str (y a)) (ToNumber str (y b))
       (ToNumber str (height a)) (ToNumber str (height b))"
  by (simp add: yDist_def axisGap_def)

lemma calculateDistance_gapDistance:
  "calculateDistance str a b = gapDistance (xDist str a b) (yDist str a b)"
  by (simp add: calculateDistance_def gapDistance_def)

lemma xDist_swap: "xDist str a b = xDist str b a"
  unfolding xDist_def
  by (simp only: js_abs_sub_swap [of "ToNumber str (x a)"]
        js_add_swap [of "js_div (ToNumber str (width a)) (Fin 2)"])

lemma yDist_swap: "yDist str a b = yDist str b a"
  unfolding yDist_def
  by (simp only: js_abs_sub_swap [of "ToNumber str (y a)"]
        js_add_swap [of "js_div (ToNumber str (height a)) (Fin 2)"])

subsection \<open>Values that are not negative\<close>

lemma js_ge_zero_cases:
  assumes "js_ge v (Fin 0)"
  obtains r where "v = Fin r" "0 \<le> r" | "v = PInf"
  using assms by (cases v) simp_all

lemma round64_ge_zero: "0 \<le> r \<Longrightarrow> js_ge (round64 r) (Fin 0)"
  by (cases r rule: round64_nonneg) simp_all

lemma js_max_zero_nonneg: "v \<noteq> NaN \<Longrightarrow> js_ge (js_max (Fin 0) v) (Fin 0)"
  by (cases v) simp_all

lemma axisGap_NaN_or_nonneg:
  "axisGap p q d e = NaN \<or> js_ge (axisGap p q d e) (Fin 0)"
  unfolding axisGap_def
  using js_max_zero_nonneg
    [of "js_sub (js_abs (js_sub p q)) (js_add (js_div d (Fin 2)) (js_div e (Fin 2)))"]
  by (cases "js_sub (js_abs (js_sub p q)) (js_add (js_div d (Fin 2)) (js_div e (Fin 2))) = NaN")
    simp_all

lemma js_pow2_nonneg: "v \<noteq> NaN \<Longrightarrow> js_ge (js_pow v 2) (Fin 0)"
  by (cases v) (simp_all add: round64_ge_zero)

lemma js_add_nonneg:
  assumes "js_ge p (Fin 0)" "js_ge q (Fin 0)"
  shows "js_ge (js_add p q) (Fin 0)"
  using assms by (cases p; cases q) (simp_all add: round64_ge_zero)

lemma js_sqrt_nonneg:
  assumes "js_ge p (Fin 0)"
  shows "js_ge (js_sqrt p) (Fin 0)"
  using assms by (cases p rule: js_ge_zero_cases) (simp_all add: round64_ge_zero)

lemma gapDistance_nonneg:
  assumes "js_ge gx (Fin 0)" "js_ge gy (Fin 0)"
  shows "js_ge (js_pow gx 2) (Fin 0)" "js_ge (js_pow gy 2) (Fin 0)"
    "js_ge (js_add (js_pow gx 2) (js_pow gy 2)) (Fin 0)"
    "js_ge (gapDistance gx gy) (Fin 0)"
proof -
  have "gx \<noteq> NaN" "gy \<noteq> NaN"
    using assms by auto
  then show sq: "js_ge (js_pow gx 2) (Fin 0)" "js_ge (js_pow gy 2) (Fin 0)"
    by (simp_all add: js_pow2_nonneg)
  then show sum: "js_ge (js_add (js_pow gx 2) (js_pow gy 2)) (Fin 0)"
    by (rule js_add_nonneg)
  then show "js_ge (gapDistance gx gy) (Fin 0)"
    unfolding gapDistance_def by (rule js_sqrt_nonneg)
qed

lemma gapDistance_NaN:
  assumes "gx = NaN \<or> gy = NaN"
  shows "gapDistance gx gy = NaN"
  using assms by (auto simp: gapDistance_def)

lemma gapDistance_NaN_or_nonneg:
  assumes "gx = NaN \<or> js_ge gx (Fin 0)" "gy = NaN \<or> js_ge gy (Fin 0)"
  shows "gapDistance gx gy = NaN \<or> js_ge (gapDistance gx gy) (Fin 0)"
  using assms gapDistance_NaN [of gx gy] gapDistance_nonneg(4) [of gx gy] by blast

subsection \<open>Fields that are finite binary64 values\<close>

lemma finite_fieldE:
  assumes "finite_field str v"
  obtains r where "ToNumber str v = Fin r" "is_binary64 r"
  using assms unfolding finite_field_def by (cases "ToNumber str v") simp_all

lemma axisGap_finite_nonneg:
  assumes "is_binary64 aw" "is_binary64 bw"
  shows "js_ge (axisGap (Fin ax) (Fin bx) (Fin aw) (Fin bw)) (Fin 0)"
proof -
  from half_sum_finite [OF assms] obtain s
    where s: "js_add (js_div (Fin aw) (Fin 2)) (js_div (Fin bw) (Fin 2)) = Fin s" .
  have "js_sub (js_abs (js_sub (Fin ax) (Fin bx))) (Fin s) \<noteq> NaN"
    by (cases "round64 (ax - bx)") simp_all
  then show ?thesis
    unfolding axisGap_def s by (rule js_max_zero_nonneg)
qed

subsection \<open>Fields that are not numbers\<close>

lemma not_a_number_NaN: "not_a_number str v \<Longrightarrow> ToNumber str v = NaN"
  by (cases v) simp_all

lemma axisGap_NaN:
  assumes "p = NaN \<or> q = NaN \<or> d = NaN \<or> e = NaN"
  shows "axisGap p q d e = NaN"
proof -
  have "js_sub p q = NaN \<or> js_add (js_div d (Fin 2)) (js_div e (Fin 2)) = NaN"
    using assms by auto
  then show ?thesis
    by (auto simp: axisGap_def)
qed

lemma calculateDistance_malformed:
  assumes "malformed str a \<or> malformed str b"
  shows "calculateDistance str a b = NaN"
proof -
  from assms have "xDist str a b = NaN \<or> yDist str a b = NaN"
    unfolding malformed_def xDist_axisGap yDist_axisGap
    using not_a_number_NaN [of str] axisGap_NaN by metis
  then show ?thesis
    unfolding calculateDistance_gapDistance by (rule gapDistance_NaN)
qed

lemma malformed_not_qualifies:
  "malformed str a \<or> malformed str b \<Longrightarrow> \<not> qualifies str (a, b)"
  by (simp add: qualifies_def calculateDistance_malformed)

subsection \<open>Overlapping intervals\<close>




subsection \<open>Operations that round nothing\<close>

lemma axisGap_exact:
  assumes "axis_exact ax bx aw bw"
  shows "axisGap (Fin ax) (Fin bx) (Fin aw) (Fin bw) = Fin (exact_gap ax bx aw bw)"
  using assms by (simp add: axis_exact_def is_binary64_def axisGap_def exact_gap_def)

lemma gapDistance_exact:
  assumes "is_binary64 (gx\<^sup>2)" "is_binary64 (gy\<^sup>2)" "is_binary64 (gx\<^sup>2 + gy\<^sup>2)"
  shows "gapDistance (Fin gx) (Fin gy) = round64 (exact_distance gx gy)"
proof -
  have "\<not> gx\<^sup>2 + gy\<^sup>2 < 0"
    by (simp add: not_less)
  with assms show ?thesis
    by (simp add: is_binary64_def gapDistance_def exact_distance_def)
qed

section \<open>Facts about the loops\<close>

lemma classify_loop_filter:
  "classify_loop entities buildings boundaries =
     (buildings @ filter (\<lambda>e. layer e = Some ''BUILDING'') entities,
      boundaries @ filter (\<lambda>e. layer e = Some ''BOUNDARY'') entities)"
  by (induction entities arbitrary: buildings boundaries) simp_all

lemma three_way_length:
  "length (filter (\<lambda>e. layer e = Some ''BUILDING'') es)
   + length (filter (\<lambda>e. layer e = Some ''BOUNDARY'') es)
   + length (ignored es) = length es"
  by (induction es) (auto simp: ignored_def)

lemma find_append_cases:
  "find P (xs @ ys) = (case find P xs of None \<Rightarrow> find P ys | Some r \<Rightarrow> Some r)"
  by (induction xs) simp_all

lemma boundary_loop_find:
  "boundary_loop str digits building boundaries =
     map_option (\<lambda>p. compliant_verdict digits (calculateDistance str (fst p) (snd p)))
       (find (qualifies str) (map (Pair building) boundaries))"
  by (induction boundaries) (simp_all add: qualifies_def Let_def)

lemma checkSetbackDistance_find:
  "checkSetbackDistance str digits buildings boundaries =
     (case first_qualifying_pair str buildings boundaries of
        None \<Rightarrow> noncompliant_verdict
      | Some p \<Rightarrow> compliant_verdict digits (calculateDistance str (fst p) (snd p)))"
  unfolding first_qualifying_pair_def
  by (induction buildings)
     (simp_all add: boundary_loop_find find_append_cases split: option.splits)

lemma compliant_iff_found:
  "compliant (checkSetbackDistance str digits buildings boundaries)
     \<longleftrightarrow> first_qualifying_pair str buildings boundaries \<noteq> None"
  by (simp add: checkSetbackDistance_find compliant_verdict_def noncompliant_verdict_def
        split: option.splits)

lemma first_qualifying_pair_None:
  "first_qualifying_pair str buildings boundaries = None
     \<longleftrightarrow> (\<forall>b \<in> set buildings. \<forall>d \<in> set boundaries. \<not> qualifies str (b, d))"
  by (auto simp: first_qualifying_pair_def find_None_iff)

lemma find_Some_split:
  "find P xs = Some p \<Longrightarrow>
     \<exists>before after. xs = before @ p # after \<and> list_all (\<lambda>q. \<not> P q) before \<and> P p"
proof (induction xs)
  case Nil
  then show ?case by simp
next
  case (Cons a xs)
  show ?case
  proof (cases "P a")
    case True
    with Cons.prems have "a = p" by simp
    with True have "a # xs = [] @ p # xs \<and> list_all (\<lambda>q. \<not> P q) [] \<and> P p" by simp
    then show ?thesis by blast
  next
    case False
    with Cons.prems have "find P xs = Some p" by simp
    from Cons.IH [OF this] obtain before after
      where "xs = before @ p # after" "list_all (\<lambda>q. \<not> P q) before" "P p" by blast
    with False have "a # xs = (a # before) @ p # after
        \<and> list_all (\<lambda>q. \<not> P q) (a # before) \<and> P p" by simp
    then show ?thesis by blast
  qed
qed

lemma first_qualifying_pair_Some:
  "first_qualifying_pair str buildings boundaries = Some p \<Longrightarrow>
     \<exists>before after. List.product buildings boundaries = before @ p # after
        \<and> list_all (\<lambda>q. \<not> qualifies str q) before \<and> qualifies str p"
  unfolding first_qualifying_pair_def by (rule find_Some_split)

section \<open>Facts about the concrete entities\<close>

lemma sqrt_289: "sqrt 289 = 17"
  using real_sqrt_abs [of 17] by simp

lemma sqrt_144: "sqrt 144 = 12"
  using real_sqrt_abs [of 12] by simp


lemma sqrt_49: "sqrt 49 = 7"
  using real_sqrt_abs [of 7] by simp

lemma sqrt_25: "sqrt 25 = 5"
  using real_sqrt_abs [of 5] by simp

lemmas fixture_defs =
  scenarioA_building_def scenarioA_boundary_def scenarioB_boundary_def middle_boundary_def
  second_building_def rect_def

lemma example_distances:
  "calculateDistance str scenarioA_building scenarioB_boundary = Fin 2"
  "calculateDistance str scenarioA_building middle_boundary = Fin 12"
  "calculateDistance str second_building scenarioB_boundary = Fin 17"
  "calculateDistance str second_building middle_boundary = Fin 7"
  by (simp_all add: calculateDistance_def xDist_def yDist_def fixture_defs
        sqrt_144 sqrt_289 sqrt_49)

lemma example_verdict:
  "checkSetbackDistance str digits [scenarioA_building, second_building]
      [scenarioB_boundary, middle_boundary]
     = \<lparr>compliant = True, message = ''Building is 12 feet away from boundary on one side.''\<rparr>"
  by (simp add: example_distances MIN_SETBACK_DISTANCE_def compliant_verdict_def natToString.simps)

lemma example_first_pair:
  "first_qualifying_pair str [scenarioA_building, second_building]
      [scenarioB_boundary, middle_boundary] = Some (scenarioA_building, middle_boundary)"
  by (simp add: first_qualifying_pair_def qualifies_def example_distances MIN_SETBACK_DISTANCE_def)

lemma no_x_malformed: "malformed str no_x_entity"
  by (simp add: malformed_def no_x_entity_def)

lemma is_binary64_numeral [simp]:
  "numeral k < (2 ^ 53 :: int) \<Longrightarrow> is_binary64 (numeral k)"
  by (simp add: is_binary64_def)

lemma is_binary64_neg_numeral [simp]:
  "numeral k < (2 ^ 53 :: int) \<Longrightarrow> is_binary64 (- numeral k)"
  by (simp add: is_binary64_def)

lemma is_binary64_zero [simp]: "is_binary64 0"
  by (simp add: is_binary64_def)

lemma is_binary64_one [simp]: "is_binary64 1"
  by (simp add: is_binary64_def)

subsection \<open>The smallest positive value\<close>




subsection \<open>Examples of rounding\<close>

text \<open>
  The binary64 values nearest to 10.1 and to 0.1 are \<open>5685794529555251 / 2 ^ 49\<close> and
  \<open>3602879701896397 / 2 ^ 55\<close>; their difference, as the language computes it, is
  exactly 10.
\<close>

lemma difference_rounds_to_ten: "round64 (5685794529555251 / 2 ^ 49 - 3602879701896397 / 2 ^ 55) = Fin 10"
proof -
  define r :: real where "r = 5685794529555251 / 2 ^ 49 - 3602879701896397 / 2 ^ 55"
  have q: "r / 2 powr of_int (3 - 52) = 360287970189639667 / 64"
    by (simp add: r_def powr_minus field_simps)
  have m: "round_even (360287970189639667 / 64) = 5629499534213120"
    by (simp add: round_even_def Let_def)
  have "round64 r = Fin (of_int (round_even (r / 2 powr of_int (3 - 52))) * 2 powr of_int (3 - 52))"
    by (rule round64_in_binade) (simp_all add: r_def)
  then show ?thesis
    unfolding q m r_def [symmetric] by (simp add: powr_minus)
qed

text \<open>
  The binary64 value nearest to 1.4 is \<open>6305039478318694 / 2 ^ 52\<close>. Its sum with 5
  lies half way between two binary64 values and is rounded to the one with the even
  significand, printed \<^verbatim>\<open>6.4000000000000004\<close>; the binary64 value nearest to 16.4
  minus that sum is printed \<^verbatim>\<open>9.999999999999998\<close>.
\<close>

lemma tie_rounds_to_even: "round64 (6305039478318694 / 2 ^ 52 + 5) = Fin (7205759403792794 / 2 ^ 50)"
proof -
  define r :: real where "r = 6305039478318694 / 2 ^ 52 + 5"
  have q: "r / 2 powr of_int (2 - 52) = 14411518807585587 / 2"
    by (simp add: r_def powr_minus field_simps)
  have m: "round_even (14411518807585587 / 2) = 7205759403792794"
    by (simp add: round_even_def Let_def)
  have "round64 r = Fin (of_int (round_even (r / 2 powr of_int (2 - 52))) * 2 powr of_int (2 - 52))"
    by (rule round64_in_binade) (simp_all add: r_def)
  then show ?thesis
    unfolding q m r_def [symmetric] by (simp add: powr_minus)
qed

lemma difference_below_ten:
  "round64 (4616189618054758 / 2 ^ 48 - 7205759403792794 / 2 ^ 50)
     = Fin (22517998136852476 / 2 ^ 51)"
proof -
  define r :: real where "r = 4616189618054758 / 2 ^ 48 - 7205759403792794 / 2 ^ 50"
  have q: "r / 2 powr of_int (3 - 52) = 5629499534213119"
    by (simp add: r_def powr_minus field_simps)
  have m: "round_even 5629499534213119 = 5629499534213119"
    using round_even_of_int [of 5629499534213119] by simp
  have "round64 r = Fin (of_int (round_even (r / 2 powr of_int (3 - 52))) * 2 powr of_int (3 - 52))"
    by (rule round64_in_binade) (simp_all add: r_def)
  then show ?thesis
    unfolding q m r_def [symmetric] by (simp add: powr_minus)
qed

text \<open>
  \<open>2 ^ 600\<close> is a binary64 value, \<open>2 ^ 600 - 3\<close> rounds to it, and its square
  overflows.
\<close>

lemma big_exact: "round64 (2 ^ 600) = Fin (2 ^ 600)"
proof (rule round64_exact)
  show "round_value (2 ^ 600) = 2 ^ 600"
    by (rule round_value_exact [of _ 1 600]) simp_all
qed simp

lemma big_minus_three: "round64 (2 ^ 600 - 3) = Fin (2 ^ 600)"
proof -
  define r :: real where "r = 2 ^ 600 - 3"
  have "round_even (r / 2 powr of_int (599 - 52)) = 2 ^ 53"
    by (simp add: r_def round_even_def Let_def field_simps)
  moreover have "round64 r
      = Fin (of_int (round_even (r / 2 powr of_int (599 - 52))) * 2 powr of_int (599 - 52))"
    by (rule round64_in_binade) (simp_all add: r_def)
  ultimately show ?thesis
    unfolding r_def [symmetric] by simp
qed

lemma big_square: "round64 ((2 ^ 600)\<^sup>2) = PInf"
proof -
  have "round_value ((2 ^ 600)\<^sup>2) = (2 ^ 600)\<^sup>2"
    by (rule round_value_exact [of _ 1 1200]) simp_all
  then show ?thesis
    by (simp add: round64_def)
qed

lemma far_distance: "calculateDistance str scenarioA_building far_boundary = PInf"
proof -
  have "round64 (- (2 ^ 600)) = Fin (- (2 ^ 600))"
    using big_exact by (rule round64_minus_Fin)
  then have "xDist str scenarioA_building far_boundary = Fin (2 ^ 600)"
    using big_minus_three
    by (simp add: xDist_def scenarioA_building_def far_boundary_def rect_def)
  moreover have "yDist str scenarioA_building far_boundary = Fin 0"
    by (simp add: yDist_def scenarioA_building_def far_boundary_def rect_def)
  ultimately show ?thesis
    using big_square by (simp add: calculateDistance_def)
qed

lemma far_finite_fields: "finite_fields str far_boundary"
  using big_exact by (simp add: finite_fields_def finite_field_def far_boundary_def rect_def
      is_binary64_def)

section \<open>The classifier: claim C3\<close>

text \<open>
  Claim C3. For every sequence of entities, the classifier returns as buildings the
  entities whose layer is exactly \<open>BUILDING\<close> and as boundaries those whose layer is
  exactly \<open>BOUNDARY\<close>, each group in the order of the input (each is the input
  filtered, hence a subsequence of it); every other entity is in neither group, so
  the two lengths and the number of ignored entities add up to the length of the
  input; the empty input gives two empty sequences.
\<close>

theorem classify_partition:
  "classify entities =
     (filter (\<lambda>e. layer e = Some ''BUILDING'') entities,
      filter (\<lambda>e. layer e = Some ''BOUNDARY'') entities)
   \<and> subseq (fst (classify entities)) entities
   \<and> subseq (snd (classify entities)) entities
   \<and> length (fst (classify entities)) + length (snd (classify entities))
       + length (ignored entities) = length entities
   \<and> classify [] = ([], [])"
  by (simp add: classify_def classify_loop_filter three_way_length)

text \<open>
  An input with a lower-case label, an unknown label and two entities of each
  group: the lower-case \<open>building\<close> is ignored, and each group keeps its order.
\<close>

theorem classify_partition_witness:
  "classify [rect ''BOUNDARY'' 1 0 0 0, rect ''building'' 2 0 0 0, rect ''BUILDING'' 3 0 0 0,
             no_x_entity, rect ''BOUNDARY'' 5 0 0 0, rect ''WALL'' 6 0 0 0]
     = ([rect ''BUILDING'' 3 0 0 0, no_x_entity],
        [rect ''BOUNDARY'' 1 0 0 0, rect ''BOUNDARY'' 5 0 0 0])
   \<and> ignored [rect ''BOUNDARY'' 1 0 0 0, rect ''building'' 2 0 0 0, rect ''BUILDING'' 3 0 0 0,
             no_x_entity, rect ''BOUNDARY'' 5 0 0 0, rect ''WALL'' 6 0 0 0]
     = [rect ''building'' 2 0 0 0, rect ''WALL'' 6 0 0 0]"
  using classify_partition [of "[rect ''BOUNDARY'' 1 0 0 0, rect ''building'' 2 0 0 0,
      rect ''BUILDING'' 3 0 0 0, no_x_entity, rect ''BOUNDARY'' 5 0 0 0, rect ''WALL'' 6 0 0 0]"]
  by (simp add: rect_def no_x_entity_def ignored_def)

section \<open>The distance: claims C2, C6, C7, C8, C9\<close>

text \<open>
  Claim C2. For all entities \<open>a\<close> and \<open>b\<close>, each axis gap that the source computes is
  the axis gap of the specification, \<open>max(0, |a.pos - b.pos| - (a.dim/2 + b.dim/2))\<close>,
  with the widths on the x-axis and the heights on the y-axis, and the distance is
  \<open>sqrt(xGap\<^sup>2 + yGap\<^sup>2)\<close>, every operation being the one of the language. When the
  position and extents are finite numbers and no operation before the root rounds,
  the gaps are the real numbers that the formula denotes and the distance is the
  rounded root of the sum of their squares.
\<close>

theorem distance_formula:
  "xDist str a b =
     axisGap (ToNumber str (x a)) (ToNumber str (x b))
       (ToNumber str (width a)) (ToNumber str (width b))
   \<and> yDist str a b =
     axisGap (ToNumber str (y a)) (ToNumber str (y b))
       (ToNumber str (height a)) (ToNumber str (height b))
   \<and> calculateDistance str a b = gapDistance (xDist str a b) (yDist str a b)
   \<and> (ToNumber str (x a) = Fin ax \<and> ToNumber str (y a) = Fin ay
      \<and> ToNumber str (width a) = Fin aw \<and> ToNumber str (height a) = Fin ah
      \<and> ToNumber str (x b) = Fin bx \<and> ToNumber str (y b) = Fin by
      \<and> ToNumber str (width b) = Fin bw \<and> ToNumber str (height b) = Fin bh
      \<and> axis_exact ax bx aw bw \<and> axis_exact ay by ah bh
      \<and> is_binary64 ((exact_gap ax bx aw bw)\<^sup>2)
      \<and> is_binary64 ((exact_gap ay by ah bh)\<^sup>2)
      \<and> is_binary64 ((exact_gap ax bx aw bw)\<^sup>2 + (exact_gap ay by ah bh)\<^sup>2)
     \<longrightarrow> xDist str a b = Fin (max 0 (\<bar>ax - bx\<bar> - (aw / 2 + bw / 2)))
       \<and> yDist str a b = Fin (max 0 (\<bar>ay - by\<bar> - (ah / 2 + bh / 2)))
       \<and> calculateDistance str a b =
           round64 (sqrt ((max 0 (\<bar>ax - bx\<bar> - (aw / 2 + bw / 2)))\<^sup>2
                        + (max 0 (\<bar>ay - by\<bar> - (ah / 2 + bh / 2)))\<^sup>2)))"
proof -
  have exact: "xDist str a b = Fin (exact_gap ax bx aw bw)
      \<and> yDist str a b = Fin (exact_gap ay by ah bh)
      \<and> calculateDistance str a b =
          round64 (exact_distance (exact_gap ax bx aw bw) (exact_gap ay by ah bh))"
    if fields: "ToNumber str (x a) = Fin ax" "ToNumber str (y a) = Fin ay"
        "ToNumber str (width a) = Fin aw" "ToNumber str (height a) = Fin ah"
        "ToNumber str (x b) = Fin bx" "ToNumber str (y b) = Fin by"
        "ToNumber str (width b) = Fin bw" "ToNumber str (height b) = Fin bh"
      and axes: "axis_exact ax bx aw bw" "axis_exact ay by ah bh"
      and squares: "is_binary64 ((exact_gap ax bx aw bw)\<^sup>2)"
        "is_binary64 ((exact_gap ay by ah bh)\<^sup>2)"
        "is_binary64 ((exact_gap ax bx aw bw)\<^sup>2 + (exact_gap ay by ah bh)\<^sup>2)"
  proof -
    have gx: "xDist str a b = Fin (exact_gap ax bx aw bw)"
      unfolding xDist_axisGap fields using axes(1) by (rule axisGap_exact)
    have gy: "yDist str a b = Fin (exact_gap ay by ah bh)"
      unfolding yDist_axisGap fields using axes(2) by (rule axisGap_exact)
    have "calculateDistance str a b =
        round64 (exact_distance (exact_gap ax bx aw bw) (exact_gap ay by ah bh))"
      unfolding calculateDistance_gapDistance gx gy using squares by (rule gapDistance_exact)
    with gx gy show ?thesis by simp
  qed
  then have "ToNumber str (x a) = Fin ax \<and> ToNumber str (y a) = Fin ay
      \<and> ToNumber str (width a) = Fin aw \<and> ToNumber str (height a) = Fin ah
      \<and> ToNumber str (x b) = Fin bx \<and> ToNumber str (y b) = Fin by
      \<and> ToNumber str (width b) = Fin bw \<and> ToNumber str (height b) = Fin bh
      \<and> axis_exact ax bx aw bw \<and> axis_exact ay by ah bh
      \<and> is_binary64 ((exact_gap ax bx aw bw)\<^sup>2)
      \<and> is_binary64 ((exact_gap ay by ah bh)\<^sup>2)
      \<and> is_binary64 ((exact_gap ax bx aw bw)\<^sup>2 + (exact_gap ay by ah bh)\<^sup>2)
     \<longrightarrow> xDist str a b = Fin (exact_gap ax bx aw bw)
       \<and> yDist str a b = Fin (exact_gap ay by ah bh)
       \<and> calculateDistance str a b =
           round64 (exact_distance (exact_gap ax bx aw bw) (exact_gap ay by ah bh))"
    by blast
  then have "ToNumber str (x a) = Fin ax \<and> ToNumber str (y a) = Fin ay
      \<and> ToNumber str (width a) = Fin aw \<and> ToNumber str (height a) = Fin ah
      \<and> ToNumber str (x b) = Fin bx \<and> ToNumber str (y b) = Fin by
      \<and> ToNumber str (width b) = Fin bw \<and> ToNumber str (height b) = Fin bh
      \<and> axis_exact ax bx aw bw \<and> axis_exact ay by ah bh
      \<and> is_binary64 ((exact_gap ax bx aw bw)\<^sup>2)
      \<and> is_binary64 ((exact_gap ay by ah bh)\<^sup>2)
      \<and> is_binary64 ((exact_gap ax bx aw bw)\<^sup>2 + (exact_gap ay by ah bh)\<^sup>2)
     \<longrightarrow> xDist str a b = Fin (max 0 (\<bar>ax - bx\<bar> - (aw / 2 + bw / 2)))
       \<and> yDist str a b = Fin (max 0 (\<bar>ay - by\<bar> - (ah / 2 + bh / 2)))
       \<and> calculateDistance str a b =
           round64 (sqrt ((max 0 (\<bar>ax - bx\<bar> - (aw / 2 + bw / 2)))\<^sup>2
                        + (max 0 (\<bar>ay - by\<bar> - (ah / 2 + bh / 2)))\<^sup>2))"
    unfolding exact_gap_def exact_distance_def .
  with xDist_axisGap [of str a b] yDist_axisGap [of str a b]
    calculateDistance_gapDistance [of str a b]
  show ?thesis by blast
qed

text \<open>
  A building and a boundary with gaps 3 and 4, all of whose intermediate results
  are small integers: their distance is 5.
\<close>

theorem distance_formula_witness:
  "xDist no_strings (rect ''BUILDING'' 0 0 4 4) (rect ''BOUNDARY'' 6 7 2 2) = Fin 3
   \<and> yDist no_strings (rect ''BUILDING'' 0 0 4 4) (rect ''BOUNDARY'' 6 7 2 2) = Fin 4
   \<and> calculateDistance no_strings (rect ''BUILDING'' 0 0 4 4) (rect ''BOUNDARY'' 6 7 2 2)
       = Fin 5"
proof -
  let ?a = "rect ''BUILDING'' 0 0 4 4" and ?b = "rect ''BOUNDARY'' 6 7 2 2"
  have "ToNumber no_strings (x ?a) = Fin 0 \<and> ToNumber no_strings (y ?a) = Fin 0
      \<and> ToNumber no_strings (width ?a) = Fin 4 \<and> ToNumber no_strings (height ?a) = Fin 4
      \<and> ToNumber no_strings (x ?b) = Fin 6 \<and> ToNumber no_strings (y ?b) = Fin 7
      \<and> ToNumber no_strings (width ?b) = Fin 2 \<and> ToNumber no_strings (height ?b) = Fin 2
      \<and> axis_exact 0 6 4 2 \<and> axis_exact 0 7 4 2
      \<and> is_binary64 ((exact_gap 0 6 4 2)\<^sup>2)
      \<and> is_binary64 ((exact_gap 0 7 4 2)\<^sup>2)
      \<and> is_binary64 ((exact_gap 0 6 4 2)\<^sup>2 + (exact_gap 0 7 4 2)\<^sup>2)"
    by (simp add: rect_def axis_exact_def exact_gap_def)
  with distance_formula [where str = no_strings and a = ?a and b = ?b
      and ax = 0 and ay = 0 and aw = 4 and ah = 4 and bx = 6 and ?by = 7 and bw = 2 and bh = 2]
  have "xDist no_strings ?a ?b = Fin (max 0 (\<bar>0 - 6\<bar> - (4 / 2 + 2 / 2)))
      \<and> yDist no_strings ?a ?b = Fin (max 0 (\<bar>0 - 7\<bar> - (4 / 2 + 2 / 2)))
      \<and> calculateDistance no_strings ?a ?b =
          round64 (sqrt ((max 0 (\<bar>0 - 6\<bar> - (4 / 2 + 2 / 2)))\<^sup>2
                       + (max 0 (\<bar>0 - 7\<bar> - (4 / 2 + 2 / 2)))\<^sup>2))"
    by blast
  then show ?thesis
    by (simp add: sqrt_25)
qed

text \<open>
  Claim C8. The distance is symmetric: for all entities \<open>a\<close> and \<open>b\<close>, whatever
  their fields hold, \<open>calculateDistance a b\<close> and \<open>calculateDistance b a\<close> are the
  same value (when that value is \<open>NaN\<close>, both are \<open>NaN\<close>).
\<close>

theorem distance_symmetric:
  "calculateDistance str a b = calculateDistance str b a"
  by (simp add: calculateDistance_def xDist_swap [of str a b] yDist_swap [of str a b])

text \<open>
  Claim C9. Scenario A: a building centred at (0, 0) of size 4 by 4 and a boundary
  centred at (20, 0) of size 2 by 2. The x gap is 17, the y gap is 0, the distance
  is 17 and meets the threshold 10, and the evaluator returns the compliant verdict
  whose message quotes 17, on the two sequences and on the unclassified input alike.
\<close>

theorem scenario_A:
  "xDist str scenarioA_building scenarioA_boundary = Fin 17
   \<and> yDist str scenarioA_building scenarioA_boundary = Fin 0
   \<and> calculateDistance str scenarioA_building scenarioA_boundary = Fin 17
   \<and> js_ge (calculateDistance str scenarioA_building scenarioA_boundary) MIN_SETBACK_DISTANCE
   \<and> checkSetbackDistance str digits [scenarioA_building] [scenarioA_boundary]
       = \<lparr>compliant = True, message = ''Building is 17 feet away from boundary on one side.''\<rparr>
   \<and> validateEntities str digits [scenarioA_building, scenarioA_boundary]
       = \<lparr>compliant = True, message = ''Building is 17 feet away from boundary on one side.''\<rparr>"
proof -
  have gx: "xDist str scenarioA_building scenarioA_boundary = Fin 17"
    by (simp add: xDist_def scenarioA_building_def scenarioA_boundary_def rect_def)
  have gy: "yDist str scenarioA_building scenarioA_boundary = Fin 0"
    by (simp add: yDist_def scenarioA_building_def scenarioA_boundary_def rect_def)
  have d: "calculateDistance str scenarioA_building scenarioA_boundary = Fin 17"
    by (simp add: calculateDistance_def gx gy sqrt_289)
  have v: "checkSetbackDistance str digits [scenarioA_building] [scenarioA_boundary]
       = \<lparr>compliant = True, message = ''Building is 17 feet away from boundary on one side.''\<rparr>"
    by (simp add: d MIN_SETBACK_DISTANCE_def compliant_verdict_def natToString.simps)
  have c: "classify [scenarioA_building, scenarioA_boundary]
       = ([scenarioA_building], [scenarioA_boundary])"
    by (simp add: classify_def scenarioA_building_def scenarioA_boundary_def rect_def)
  have "validateEntities str digits [scenarioA_building, scenarioA_boundary]
       = \<lparr>compliant = True, message = ''Building is 17 feet away from boundary on one side.''\<rparr>"
    unfolding validateEntities_def c using v by simp
  with gx gy d v show ?thesis
    by (simp add: MIN_SETBACK_DISTANCE_def)
qed

text \<open>
  Claim C6, as stated, for every pair of entities: the distance is at least 0 and
  no \<open>NaN\<close> arises. It fails on entities that the evaluator accepts: a building
  whose \<^verbatim>\<open>x\<close> is absent has the x gap \<open>NaN\<close> and the distance \<open>NaN\<close>, which is
  not at least 0; so has an entity at \<open>+Infinity\<close> against itself, where the
  difference of the positions is \<open>NaN\<close>. The clamp \<^verbatim>\<open>Math.max(0, ...)\<close> returns
  \<open>NaN\<close> for a \<open>NaN\<close> argument.
\<close>

theorem distance_not_always_number:
  "xDist no_strings no_x_entity scenarioA_boundary = NaN
   \<and> calculateDistance no_strings no_x_entity scenarioA_boundary = NaN
   \<and> \<not> js_ge (calculateDistance no_strings no_x_entity scenarioA_boundary) (Fin 0)
   \<and> calculateDistance no_strings infinite_x_entity infinite_x_entity = NaN
   \<and> \<not> js_ge (calculateDistance no_strings infinite_x_entity infinite_x_entity) (Fin 0)"
  by (simp add: calculateDistance_def xDist_def yDist_def no_x_entity_def infinite_x_entity_def
        scenarioA_boundary_def rect_def)

text \<open>
  Claim C6, amended. For every pair of entities, the distance is never negative:
  it is \<open>NaN\<close> or at least 0 (\<open>+Infinity\<close> included), and so is each clamped axis gap.
  For every pair of entities whose position and extents are finite numbers, no
  \<open>NaN\<close> arises from the clamp on: the two clamped axis gaps, their squares, the sum
  of the squares and the distance are all at least 0.
\<close>

theorem distance_never_negative:
  "(xDist str a b = NaN \<or> js_ge (xDist str a b) (Fin 0))
   \<and> (yDist str a b = NaN \<or> js_ge (yDist str a b) (Fin 0))
   \<and> (calculateDistance str a b = NaN \<or> js_ge (calculateDistance str a b) (Fin 0))
   \<and> (finite_fields str a \<and> finite_fields str b \<longrightarrow>
        js_ge (xDist str a b) (Fin 0) \<and> js_ge (yDist str a b) (Fin 0)
        \<and> js_ge (js_pow (xDist str a b) 2) (Fin 0)
        \<and> js_ge (js_pow (yDist str a b) 2) (Fin 0)
        \<and> js_ge (js_add (js_pow (xDist str a b) 2) (js_pow (yDist str a b) 2)) (Fin 0)
        \<and> js_ge (calculateDistance str a b) (Fin 0))"
proof -
  have gx: "xDist str a b = NaN \<or> js_ge (xDist str a b) (Fin 0)"
    unfolding xDist_axisGap by (rule axisGap_NaN_or_nonneg)
  have gy: "yDist str a b = NaN \<or> js_ge (yDist str a b) (Fin 0)"
    unfolding yDist_axisGap by (rule axisGap_NaN_or_nonneg)
  have d: "calculateDistance str a b = NaN \<or> js_ge (calculateDistance str a b) (Fin 0)"
    unfolding calculateDistance_gapDistance using gx gy by (rule gapDistance_NaN_or_nonneg)
  have fin: "js_ge (xDist str a b) (Fin 0) \<and> js_ge (yDist str a b) (Fin 0)
        \<and> js_ge (js_pow (xDist str a b) 2) (Fin 0)
        \<and> js_ge (js_pow (yDist str a b) 2) (Fin 0)
        \<and> js_ge (js_add (js_pow (xDist str a b) 2) (js_pow (yDist str a b) 2)) (Fin 0)
        \<and> js_ge (calculateDistance str a b) (Fin 0)"
    if "finite_fields str a" "finite_fields str b"
  proof -
    from that obtain ax ay aw ah bx "by" bw bh
      where a: "ToNumber str (x a) = Fin ax" "ToNumber str (y a) = Fin ay"
          "ToNumber str (width a) = Fin aw" "ToNumber str (height a) = Fin ah"
        and b: "ToNumber str (x b) = Fin bx" "ToNumber str (y b) = Fin by"
          "ToNumber str (width b) = Fin bw" "ToNumber str (height b) = Fin bh"
        and w: "is_binary64 aw" "is_binary64 bw" "is_binary64 ah" "is_binary64 bh"
      unfolding finite_fields_def by (metis finite_fieldE)
    have x0: "js_ge (xDist str a b) (Fin 0)"
      unfolding xDist_axisGap a b using w(1,2) by (rule axisGap_finite_nonneg)
    have y0: "js_ge (yDist str a b) (Fin 0)"
      unfolding yDist_axisGap a b using w(3,4) by (rule axisGap_finite_nonneg)
    from gapDistance_nonneg [OF x0 y0] x0 y0 show ?thesis
      by (simp add: calculateDistance_gapDistance)
  qed
  from gx gy d fin show ?thesis by blast
qed

text \<open>
  The building of scenario A and a boundary at distance 12: every field is a finite
  number and the distance is at least 0. Against a boundary at \<open>2 ^ 600\<close> every field
  is a finite number as well, the square of the x gap overflows, and the distance is
  \<open>+Infinity\<close>, which is at least 0.
\<close>

theorem distance_never_negative_witness:
  "finite_fields no_strings scenarioA_building \<and> finite_fields no_strings middle_boundary
   \<and> js_ge (xDist no_strings scenarioA_building middle_boundary) (Fin 0)
   \<and> js_ge (calculateDistance no_strings scenarioA_building middle_boundary) (Fin 0)
   \<and> calculateDistance no_strings scenarioA_building middle_boundary = Fin 12
   \<and> finite_fields no_strings far_boundary
   \<and> calculateDistance no_strings scenarioA_building far_boundary = PInf
   \<and> js_ge (calculateDistance no_strings scenarioA_building far_boundary) (Fin 0)"
proof -
  have f: "finite_fields no_strings scenarioA_building \<and> finite_fields no_strings middle_boundary"
    by (simp add: finite_fields_def finite_field_def fixture_defs)
  with distance_never_negative [of no_strings scenarioA_building middle_boundary]
    distance_never_negative [of no_strings scenarioA_building far_boundary]
    example_distances(2) [of no_strings] far_finite_fields [of no_strings]
    far_distance [of no_strings]
  show ?thesis by blast
qed




section \<open>The evaluator: claims C1, C4, C5, C10\<close>

text \<open>
  Claim C1. For all sequences of buildings and boundaries, the verdict is compliant
  if and only if some building and some boundary are at a distance that meets the
  threshold 10. The pairs are visited with the buildings as the outer and the
  boundaries as the inner loop, each in its order, and the verdict is decided by the
  first qualifying pair in that order: the message quotes the distance of that
  pair. When no pair qualifies the verdict is the fixed non-compliant one.
\<close>

theorem evaluator_first_qualifying_pair:
  "(compliant (checkSetbackDistance str digits buildings boundaries)
      \<longleftrightarrow> (\<exists>building \<in> set buildings. \<exists>boundary \<in> set boundaries.
            js_ge (calculateDistance str building boundary) MIN_SETBACK_DISTANCE))
   \<and> checkSetbackDistance str digits buildings boundaries =
       (case first_qualifying_pair str buildings boundaries of
          None \<Rightarrow>
            \<lparr>compliant = False,
             message = ''Building does not meet the 10-ft setback requirement on any side.''\<rparr>
        | Some (building, boundary) \<Rightarrow>
            \<lparr>compliant = True,
             message = ''Building is ''
               @ NumberToString digits (calculateDistance str building boundary)
               @ '' feet away from boundary on one side.''\<rparr>)"
proof -
  have "first_qualifying_pair str buildings boundaries \<noteq> None
      \<longleftrightarrow> (\<exists>building \<in> set buildings. \<exists>boundary \<in> set boundaries.
            js_ge (calculateDistance str building boundary) MIN_SETBACK_DISTANCE)"
    using first_qualifying_pair_None [of str buildings boundaries]
    by (auto simp: qualifies_def)
  then have "compliant (checkSetbackDistance str digits buildings boundaries)
      \<longleftrightarrow> (\<exists>building \<in> set buildings. \<exists>boundary \<in> set boundaries.
            js_ge (calculateDistance str building boundary) MIN_SETBACK_DISTANCE)"
    by (simp only: compliant_iff_found)
  moreover have "checkSetbackDistance str digits buildings boundaries =
       (case first_qualifying_pair str buildings boundaries of
          None \<Rightarrow>
            \<lparr>compliant = False,
             message = ''Building does not meet the 10-ft setback requirement on any side.''\<rparr>
        | Some (building, boundary) \<Rightarrow>
            \<lparr>compliant = True,
             message = ''Building is ''
               @ NumberToString digits (calculateDistance str building boundary)
               @ '' feet away from boundary on one side.''\<rparr>)"
    by (simp add: checkSetbackDistance_find compliant_verdict_def noncompliant_verdict_def
          split: option.splits prod.splits)
  ultimately show ?thesis by blast
qed

text \<open>
  Two buildings and two boundaries with distances 2, 12, 17 and 7 in the order of
  the loops: the verdict quotes 12, the distance of the first qualifying pair, not
  17, the largest one (and the first one if the boundaries were the outer loop).
\<close>

theorem evaluator_first_qualifying_pair_witness:
  "compliant (checkSetbackDistance no_strings no_digits [scenarioA_building, second_building]
      [scenarioB_boundary, middle_boundary])
   \<and> first_qualifying_pair no_strings [scenarioA_building, second_building]
        [scenarioB_boundary, middle_boundary] = Some (scenarioA_building, middle_boundary)
   \<and> calculateDistance no_strings scenarioA_building middle_boundary = Fin 12
   \<and> calculateDistance no_strings second_building scenarioB_boundary = Fin 17
   \<and> message (checkSetbackDistance no_strings no_digits [scenarioA_building, second_building]
        [scenarioB_boundary, middle_boundary])
      = ''Building is 12 feet away from boundary on one side.''"
  using evaluator_first_qualifying_pair [of no_strings no_digits
      "[scenarioA_building, second_building]" "[scenarioB_boundary, middle_boundary]"]
  by (simp add: example_first_pair example_distances natToString.simps)

text \<open>
  Claim C4. When no building and boundary are at a distance that meets the
  threshold, the evaluator returns the non-compliant verdict with its fixed message,
  which quotes no computed distance; so it does when the buildings are empty and
  when the boundaries are empty. The evaluator is a total function whose every
  result is a verdict: the source has no \<^verbatim>\<open>throw\<close> and no operation that can
  raise on entities that are objects.
\<close>

theorem no_qualifying_pair_noncompliant:
  "((\<forall>building \<in> set buildings. \<forall>boundary \<in> set boundaries.
        \<not> js_ge (calculateDistance str building boundary) MIN_SETBACK_DISTANCE)
     \<longrightarrow> checkSetbackDistance str digits buildings boundaries =
          \<lparr>compliant = False,
           message = ''Building does not meet the 10-ft setback requirement on any side.''\<rparr>)
   \<and> checkSetbackDistance str digits [] boundaries =
        \<lparr>compliant = False,
         message = ''Building does not meet the 10-ft setback requirement on any side.''\<rparr>
   \<and> checkSetbackDistance str digits buildings [] =
        \<lparr>compliant = False,
         message = ''Building does not meet the 10-ft setback requirement on any side.''\<rparr>"
proof -
  have none: "first_qualifying_pair str buildings boundaries = None
      \<Longrightarrow> checkSetbackDistance str digits buildings boundaries =
          \<lparr>compliant = False,
           message = ''Building does not meet the 10-ft setback requirement on any side.''\<rparr>"
    for buildings boundaries
    by (simp add: checkSetbackDistance_find noncompliant_verdict_def)
  have "first_qualifying_pair str [] boundaries = None"
    and "first_qualifying_pair str buildings [] = None"
    by (simp_all add: first_qualifying_pair_None)
  then show ?thesis
    using none first_qualifying_pair_None [of str buildings boundaries]
    by (simp add: qualifies_def noncompliant_verdict_def)
qed

text \<open>Scenario B (one pair at distance 2) and scenario C (no building).\<close>

theorem no_qualifying_pair_noncompliant_witness:
  "\<not> js_ge (calculateDistance no_strings scenarioA_building scenarioB_boundary)
        MIN_SETBACK_DISTANCE
   \<and> checkSetbackDistance no_strings no_digits [scenarioA_building] [scenarioB_boundary] =
        \<lparr>compliant = False,
         message = ''Building does not meet the 10-ft setback requirement on any side.''\<rparr>
   \<and> checkSetbackDistance no_strings no_digits [] [scenarioA_boundary] =
        \<lparr>compliant = False,
         message = ''Building does not meet the 10-ft setback requirement on any side.''\<rparr>"
  using no_qualifying_pair_noncompliant [of "[scenarioA_building]" "[scenarioB_boundary]"
      no_strings no_digits]
    no_qualifying_pair_noncompliant [of "[]" "[scenarioA_boundary]" no_strings no_digits]
  by (simp add: example_distances MIN_SETBACK_DISTANCE_def noncompliant_verdict_def)

text \<open>
  Claim C5, as stated, for every pair in which an entity has a malformed or missing
  numeric field: the distance is \<open>NaN\<close> and the pair never triggers a compliant
  verdict. It fails for fields that are not numbers but convert to one: the
  building of scenario A with \<^verbatim>\<open>x: null\<close> is taken at \<open>x = 0\<close>, and against the
  boundary of scenario A the verdict is compliant and quotes 17. It fails as well
  for a boundary whose \<^verbatim>\<open>x\<close> is \<open>+Infinity\<close>: the distance is \<open>+Infinity\<close>, and the
  verdict is compliant and quotes \<open>Infinity\<close>.
\<close>

theorem converted_field_compliant:
  "calculateDistance no_strings null_x_building scenarioA_boundary = Fin 17
   \<and> checkSetbackDistance no_strings no_digits [null_x_building] [scenarioA_boundary]
       = \<lparr>compliant = True, message = ''Building is 17 feet away from boundary on one side.''\<rparr>
   \<and> calculateDistance no_strings scenarioA_building infinite_x_entity = PInf
   \<and> checkSetbackDistance no_strings no_digits [scenarioA_building] [infinite_x_entity]
       = \<lparr>compliant = True,
          message = ''Building is Infinity feet away from boundary on one side.''\<rparr>"
proof -
  have d: "calculateDistance no_strings null_x_building scenarioA_boundary = Fin 17"
    by (simp add: calculateDistance_def xDist_def yDist_def null_x_building_def
          scenarioA_boundary_def rect_def sqrt_289)
  have i: "calculateDistance no_strings scenarioA_building infinite_x_entity = PInf"
    by (simp add: calculateDistance_def xDist_def yDist_def infinite_x_entity_def
          scenarioA_building_def rect_def)
  show ?thesis
    by (simp add: d i MIN_SETBACK_DISTANCE_def compliant_verdict_def natToString.simps)
qed

text \<open>
  Claim C5, amended. When a numeric field of an entity of a pair is not a number
  (it is absent, holds \<open>NaN\<close>, or holds a string whose text is not numeric), the
  distance of the pair is \<open>NaN\<close>, the comparison with the threshold is false, the
  pair is never the one that makes a verdict compliant, and the pair alone gives
  the ordinary non-compliant verdict; when every pair has such a field the
  evaluator returns the ordinary non-compliant verdict. Nothing is validated and
  there is no separate error result.
\<close>

theorem malformed_pair_never_compliant:
  "(malformed str building \<or> malformed str boundary \<longrightarrow>
      calculateDistance str building boundary = NaN
      \<and> \<not> js_ge (calculateDistance str building boundary) MIN_SETBACK_DISTANCE
      \<and> first_qualifying_pair str buildings boundaries \<noteq> Some (building, boundary)
      \<and> checkSetbackDistance str digits [building] [boundary] =
          \<lparr>compliant = False,
           message = ''Building does not meet the 10-ft setback requirement on any side.''\<rparr>)
   \<and> ((\<forall>b \<in> set buildings. \<forall>d \<in> set boundaries. malformed str b \<or> malformed str d) \<longrightarrow>
        checkSetbackDistance str digits buildings boundaries =
          \<lparr>compliant = False,
           message = ''Building does not meet the 10-ft setback requirement on any side.''\<rparr>)"
proof -
  have one: "first_qualifying_pair str buildings boundaries \<noteq> Some (building, boundary)"
    if "malformed str building \<or> malformed str boundary"
  proof
    assume "first_qualifying_pair str buildings boundaries = Some (building, boundary)"
    from first_qualifying_pair_Some [OF this] have "qualifies str (building, boundary)" by blast
    with malformed_not_qualifies [OF that] show False by simp
  qed
  have single: "checkSetbackDistance str digits [building] [boundary] =
          \<lparr>compliant = False,
           message = ''Building does not meet the 10-ft setback requirement on any side.''\<rparr>"
    if "malformed str building \<or> malformed str boundary"
    using calculateDistance_malformed [OF that] by (simp add: noncompliant_verdict_def)
  have every: "checkSetbackDistance str digits buildings boundaries =
          \<lparr>compliant = False,
           message = ''Building does not meet the 10-ft setback requirement on any side.''\<rparr>"
    if "\<forall>b \<in> set buildings. \<forall>d \<in> set boundaries. malformed str b \<or> malformed str d"
  proof -
    from that have "first_qualifying_pair str buildings boundaries = None"
      unfolding first_qualifying_pair_None using malformed_not_qualifies by blast
    then show ?thesis
      by (simp add: checkSetbackDistance_find noncompliant_verdict_def)
  qed
  show ?thesis
    using one single every calculateDistance_malformed [of str building boundary]
    by auto
qed

text \<open>
  A building without \<^verbatim>\<open>x\<close>: alone it gives the non-compliant verdict against
  one and against two boundaries; beside the building of scenario A it is not the
  pair that decides.
\<close>

theorem malformed_pair_never_compliant_witness:
  "malformed no_strings no_x_entity
   \<and> calculateDistance no_strings no_x_entity scenarioA_boundary = NaN
   \<and> checkSetbackDistance no_strings no_digits [no_x_entity] [scenarioA_boundary] =
        \<lparr>compliant = False,
         message = ''Building does not meet the 10-ft setback requirement on any side.''\<rparr>
   \<and> first_qualifying_pair no_strings [no_x_entity, scenarioA_building] [scenarioA_boundary]
        \<noteq> Some (no_x_entity, scenarioA_boundary)
   \<and> checkSetbackDistance no_strings no_digits [no_x_entity]
        [scenarioA_boundary, scenarioB_boundary] =
        \<lparr>compliant = False,
         message = ''Building does not meet the 10-ft setback requirement on any side.''\<rparr>"
proof -
  have one: "malformed no_strings no_x_entity \<or> malformed no_strings scenarioA_boundary"
    using no_x_malformed by simp
  have every: "\<forall>b \<in> set [no_x_entity]. \<forall>d \<in> set [scenarioA_boundary, scenarioB_boundary].
      malformed no_strings b \<or> malformed no_strings d"
    using no_x_malformed by simp
  from one malformed_pair_never_compliant [of no_strings no_x_entity scenarioA_boundary
      "[no_x_entity, scenarioA_building]" "[scenarioA_boundary]" no_digits]
    every malformed_pair_never_compliant [of no_strings no_x_entity scenarioA_boundary
      "[no_x_entity]" "[scenarioA_boundary, scenarioB_boundary]" no_digits]
  show ?thesis
    using no_x_malformed by blast
qed

text \<open>
  Claim C10. Every verdict of the evaluator is of one of two shapes. If it is
  compliant, the pairs in the order of the loops split into pairs that do not
  qualify, then a pair that does, and the message quotes the value of
  \<open>calculateDistance\<close> on that pair, a value that meets the threshold 10. If it is
  not compliant, the message is the one fixed string.
\<close>

theorem verdict_invariant:
  "(compliant (checkSetbackDistance str digits buildings boundaries) \<longrightarrow>
      (\<exists>before building boundary after.
          List.product buildings boundaries = before @ (building, boundary) # after
          \<and> list_all
              (\<lambda>p. \<not> js_ge (calculateDistance str (fst p) (snd p)) MIN_SETBACK_DISTANCE) before
          \<and> js_ge (calculateDistance str building boundary) MIN_SETBACK_DISTANCE
          \<and> message (checkSetbackDistance str digits buildings boundaries) =
              ''Building is '' @ NumberToString digits (calculateDistance str building boundary)
              @ '' feet away from boundary on one side.''))
   \<and> (\<not> compliant (checkSetbackDistance str digits buildings boundaries) \<longrightarrow>
        message (checkSetbackDistance str digits buildings boundaries) =
          ''Building does not meet the 10-ft setback requirement on any side.'')"
proof (cases "first_qualifying_pair str buildings boundaries")
  case None
  then have "checkSetbackDistance str digits buildings boundaries = noncompliant_verdict"
    by (simp add: checkSetbackDistance_find)
  then show ?thesis
    by (simp add: noncompliant_verdict_def)
next
  case (Some p)
  obtain building boundary where p: "p = (building, boundary)"
    by (cases p)
  from first_qualifying_pair_Some [OF Some] obtain before after
    where split: "List.product buildings boundaries = before @ p # after"
      and first: "list_all (\<lambda>q. \<not> qualifies str q) before"
      and meets: "qualifies str p"
    by blast
  have v: "checkSetbackDistance str digits buildings boundaries =
      compliant_verdict digits (calculateDistance str building boundary)"
    using Some p by (simp add: checkSetbackDistance_find)
  have "List.product buildings boundaries = before @ (building, boundary) # after
      \<and> list_all
          (\<lambda>p. \<not> js_ge (calculateDistance str (fst p) (snd p)) MIN_SETBACK_DISTANCE) before
      \<and> js_ge (calculateDistance str building boundary) MIN_SETBACK_DISTANCE
      \<and> message (checkSetbackDistance str digits buildings boundaries) =
          ''Building is '' @ NumberToString digits (calculateDistance str building boundary)
          @ '' feet away from boundary on one side.''"
    using split first meets p v
    by (simp add: qualifies_def compliant_verdict_def)
  moreover have "compliant (checkSetbackDistance str digits buildings boundaries)"
    using v by (simp add: compliant_verdict_def)
  ultimately show ?thesis by blast
qed

text \<open>The two by two example for the compliant shape, scenario B for the other.\<close>

theorem verdict_invariant_witness:
  "compliant (checkSetbackDistance no_strings no_digits [scenarioA_building, second_building]
      [scenarioB_boundary, middle_boundary])
   \<and> (\<exists>before building boundary after.
          List.product [scenarioA_building, second_building]
              [scenarioB_boundary, middle_boundary]
            = before @ (building, boundary) # after
          \<and> list_all
              (\<lambda>p. \<not> js_ge (calculateDistance no_strings (fst p) (snd p)) MIN_SETBACK_DISTANCE)
              before
          \<and> js_ge (calculateDistance no_strings building boundary) MIN_SETBACK_DISTANCE
          \<and> message (checkSetbackDistance no_strings no_digits
                [scenarioA_building, second_building] [scenarioB_boundary, middle_boundary]) =
              ''Building is ''
              @ NumberToString no_digits (calculateDistance no_strings building boundary)
              @ '' feet away from boundary on one side.'')
   \<and> message (checkSetbackDistance no_strings no_digits [scenarioA_building, second_building]
        [scenarioB_boundary, middle_boundary])
      = ''Building is 12 feet away from boundary on one side.''
   \<and> \<not> compliant (checkSetbackDistance no_strings no_digits [scenarioA_building]
        [scenarioB_boundary])
   \<and> message (checkSetbackDistance no_strings no_digits [scenarioA_building]
        [scenarioB_boundary]) =
        ''Building does not meet the 10-ft setback requirement on any side.''"
proof -
  have yes: "compliant (checkSetbackDistance no_strings no_digits
      [scenarioA_building, second_building] [scenarioB_boundary, middle_boundary])"
    and "message (checkSetbackDistance no_strings no_digits [scenarioA_building, second_building]
        [scenarioB_boundary, middle_boundary])
      = ''Building is 12 feet away from boundary on one side.''"
    unfolding example_verdict by simp_all
  moreover
  have no: "\<not> compliant (checkSetbackDistance no_strings no_digits [scenarioA_building]
      [scenarioB_boundary])"
    by (simp add: example_distances MIN_SETBACK_DISTANCE_def noncompliant_verdict_def)
  moreover note
    verdict_invariant [of no_strings no_digits "[scenarioA_building, second_building]"
      "[scenarioB_boundary, middle_boundary]"]
    verdict_invariant [of no_strings no_digits "[scenarioA_building]" "[scenarioB_boundary]"]
  ultimately show ?thesis by blast
qed

end
